theory Spec2Isabelle
  imports Complex_Main
begin

section \<open>The thumbnail package: data model\<close>

text \<open>
  \<^verbatim>\<open>thumbnail.go\<close> holds the package twice: an older copy, and the current one that has
  \<^verbatim>\<open>SaveWithDimension\<close>, \<^verbatim>\<open>saveInternal\<close>, the loaders with a fallback and the
  package-level \<^verbatim>\<open>CreateThumbnail\<close>. The development embeds the current copy; of the older
  one only the resize step is kept, for comparison. Go structs are records; several structs
  share field names (\<^verbatim>\<open>Width\<close>, \<^verbatim>\<open>Height\<close>, \<^verbatim>\<open>Name\<close>, \<^verbatim>\<open>Prefix\<close>, \<^verbatim>\<open>Path\<close>),
  so the fields of all but one struct carry a short prefix. An \<^verbatim>\<open>int\<close> is only ever
  compared with zero and copied, so it is an integer without a bound.
\<close>

subsection \<open>Errors and panics\<close>

text \<open>
  A panic value as \<^verbatim>\<open>recover()\<close> sees it: the nil-pointer dereference and the failed
  type assertion of the Go runtime, or whatever a library panicked with.
\<close>

datatype panic_value =
    NilPointerDereference
  | InterfaceConversion
  | LibraryPanic string

datatype errno = ENOENT | EACCES | ENOTDIR | EISDIR | ENOSPC | EMFILE

text \<open>
  The error values that reach this package. \<open>PathError op path errno\<close> is a
  \<^verbatim>\<open>*fs.PathError\<close>; \<open>OtherError\<close> is an error of any other dynamic type coming from a
  library; \<open>FailedToWrite e\<close> is \<^verbatim>\<open>fmt.Errorf("failed to write image: %v", e)\<close> and
  \<open>RecoveredFromPanic r\<close> is \<^verbatim>\<open>fmt.Errorf("recovered from panic: %v", r)\<close>.
\<close>

datatype error =
    ErrInvalidMimeType
  | ErrInvalidImageData
  | ErrInvalidNoTransformProvided
  | ErrInvalidScaler
  | PathError string string errno
  | OtherError string
  | FailedToWrite error
  | RecoveredFromPanic panic_value

text \<open>A call either returns or panics.\<close>

datatype 'a outcome = Return 'a | Panic panic_value

subsection \<open>float64, as far as the package looks at it\<close>

text \<open>
  The package only compares \<^verbatim>\<open>Percentage\<close> with \<^verbatim>\<open>0.0\<close>. A NaN compares false with
  everything, the infinities compare as expected.
\<close>

datatype float64 = Finite real | PosInf | NegInf | NaN

fun float_gt_zero :: "float64 \<Rightarrow> bool" where
  "float_gt_zero (Finite r) = (0 < r)"
| "float_gt_zero PosInf = True"
| "float_gt_zero NegInf = False"
| "float_gt_zero NaN = False"

subsection \<open>Structs\<close>

record ImageSize =
  size_Width :: int
  size_Height :: int

record 'img Image =
  Path :: string
  ImageData :: "'img option"
  Size :: ImageSize
  TargetDimension :: ImageSize

record ImageDimension =
  Width :: int
  Height :: int
  Percentage :: float64
  Prefix :: string
  Name :: string
  DestinationOverride :: string

record GenerationResult =
  Filename :: string
  res_Path :: string
  Error :: "error option"

datatype Format = JPEG | PNG | GIF | TIFF | BMP | PDF

record FormatOption =
  Format :: Format

record Generator =
  gen_Width :: int
  gen_Height :: int
  PreferredFormat :: FormatOption
  gen_Name :: string
  DestinationPath :: string
  gen_Prefix :: string
  OutputFormats :: "ImageDimension list"

text \<open>\<^verbatim>\<open>imgconv.ResizeOption\<close>; a field left out of the Go literal is its zero value.\<close>

record ResizeOption =
  opt_Width :: int
  opt_Height :: int
  Percent :: float64

definition DefaultThumbnailSize :: ImageSize where
  "DefaultThumbnailSize = \<lparr>size_Width = 220, size_Height = 220\<rparr>"

text \<open>\<^verbatim>\<open>GenerationResult{}\<close>, also the value of the named result when a panic is recovered.\<close>

definition zero_result :: GenerationResult where
  "zero_result = \<lparr>Filename = [], res_Path = [], Error = None\<rparr>"

text \<open>The two constructors; both fix the format, \<^verbatim>\<open>NewGenerator\<close> also the size.\<close>

definition New :: "Generator \<Rightarrow> Generator" where
  "New c =
     \<lparr>gen_Width = gen_Width c, gen_Height = gen_Height c,
      PreferredFormat = \<lparr>Format = JPEG\<rparr>, gen_Name = gen_Name c,
      DestinationPath = DestinationPath c, gen_Prefix = gen_Prefix c, OutputFormats = []\<rparr>"

definition NewGenerator :: "Generator \<Rightarrow> ImageDimension list \<Rightarrow> Generator" where
  "NewGenerator c outputFormats =
     \<lparr>gen_Width = 300, gen_Height = 300,
      PreferredFormat = \<lparr>Format = JPEG\<rparr>, gen_Name = gen_Name c,
      DestinationPath = DestinationPath c, gen_Prefix = gen_Prefix c,
      OutputFormats = outputFormats\<rparr>"

section \<open>path/filepath on a Unix target\<close>

text \<open>
  The standard library functions the package calls, for the separator \<^verbatim>\<open>/\<close> and no volume
  names. \<open>Clean\<close> works on the path elements: empty elements and \<^verbatim>\<open>.\<close> disappear, a
  \<^verbatim>\<open>..\<close> removes the element before it, is dropped at the root and is kept at the front of
  a relative path; an empty result is \<^verbatim>\<open>.\<close>.
\<close>

definition IsPathSeparator :: "char \<Rightarrow> bool" where
  "IsPathSeparator c = (c = CHR ''/'')"

fun split_elems :: "string \<Rightarrow> string list" where
  "split_elems [] = [[]]"
| "split_elems (c # cs) =
     (if IsPathSeparator c then [] # split_elems cs
      else (case split_elems cs of
              [] \<Rightarrow> [[c]]
            | e # es \<Rightarrow> (c # e) # es))"

text \<open>The output buffer of \<open>Clean\<close> as a stack of elements, the last one first.\<close>

fun clean_elems :: "bool \<Rightarrow> string list \<Rightarrow> string list \<Rightarrow> string list" where
  "clean_elems rooted out [] = out"
| "clean_elems rooted out (e # es) =
     (if e = [] \<or> e = ''.'' then clean_elems rooted out es
      else if e = ''..'' then
        (case out of
           [] \<Rightarrow> if rooted then clean_elems rooted [] es
                 else clean_elems rooted [''..''] es
         | e' # below \<Rightarrow>
             if e' = ''..'' then clean_elems rooted (''..'' # out) es
             else clean_elems rooted below es)
      else clean_elems rooted (e # out) es)"

fun join_elems :: "string list \<Rightarrow> string" where
  "join_elems [] = []"
| "join_elems [e] = e"
| "join_elems (e # es) = e @ ''/'' @ join_elems es"

definition Clean :: "string \<Rightarrow> string" where
  "Clean path =
     (let rooted = (path \<noteq> [] \<and> IsPathSeparator (hd path));
          out = (if rooted then ''/'' else []) @
                join_elems (rev (clean_elems rooted [] (split_elems path)))
      in if out = [] then ''.'' else out)"

text \<open>\<^verbatim>\<open>filepath.Join\<close>: leading empty elements are skipped, the rest is joined and cleaned.\<close>

definition Join :: "string list \<Rightarrow> string" where
  "Join elem =
     (case dropWhile (\<lambda>e. e = []) elem of
        [] \<Rightarrow> []
      | e # es \<Rightarrow> Clean (join_elems (e # es)))"

text \<open>\<^verbatim>\<open>filepath.Base\<close>: the last element, trailing separators removed first.\<close>

definition Base :: "string \<Rightarrow> string" where
  "Base path =
     (if path = [] then ''.''
      else
        let stripped = rev (dropWhile IsPathSeparator (rev path));
            last_elem = rev (takeWhile (\<lambda>c. \<not> IsPathSeparator c) (rev stripped))
        in if last_elem = [] then ''/'' else last_elem)"

text \<open>\<^verbatim>\<open>filepath.Dir\<close>: everything up to the last separator, cleaned.\<close>

definition Dir :: "string \<Rightarrow> string" where
  "Dir path = Clean (rev (dropWhile (\<lambda>c. \<not> IsPathSeparator c) (rev path)))"

section \<open>The environment: image library, file system, heap\<close>

text \<open>
  The image library and the file system are not part of the package. They are taken as
  functions over a file-system state \<open>'fs\<close> and an image type \<open>'img\<close> of which nothing
  is assumed: \<^verbatim>\<open>imgconv.Save\<close> and \<^verbatim>\<open>imgconv.Resize\<close> may return, fail or panic.
  \<^verbatim>\<open>log.Printf\<close> is left out.
\<close>

record ('fs, 'img) env =
  imgconv_Open :: "'fs \<Rightarrow> string \<Rightarrow> error + 'img"
  imgconv_Save :: "'fs \<Rightarrow> string \<Rightarrow> 'img \<Rightarrow> FormatOption \<Rightarrow> error option outcome \<times> 'fs"
  imgconv_Resize :: "'img \<Rightarrow> ResizeOption \<Rightarrow> 'img outcome"
  os_MkdirAll :: "'fs \<Rightarrow> string \<Rightarrow> nat \<Rightarrow> error option \<times> 'fs"
  Bounds_Max :: "'img \<Rightarrow> int \<times> int"

text \<open>Every call that touches the file system is recorded, in order.\<close>

datatype event =
    EvOpen string
  | EvSave string
  | EvMkdirAll string nat

text \<open>
  An \<^verbatim>\<open>*Image\<close> is \<open>None\<close> (nil) or \<open>Some a\<close> for an address \<open>a\<close> of the heap, so that
  two copies of a pointer name the same \<open>Image\<close>.
\<close>

type_synonym addr = nat

record ('fs, 'img) state =
  fs :: 'fs
  trace :: "event list"
  heap :: "addr \<Rightarrow> 'img Image"
  next_addr :: addr

definition alloc :: "'img Image \<Rightarrow> ('fs, 'img) state \<Rightarrow> addr \<times> ('fs, 'img) state" where
  "alloc img s =
     (next_addr s, s\<lparr>heap := (heap s)(next_addr s := img), next_addr := Suc (next_addr s)\<rparr>)"

definition do_Open :: "('fs, 'img) env \<Rightarrow> string \<Rightarrow> ('fs, 'img) state
    \<Rightarrow> (error + 'img) \<times> ('fs, 'img) state" where
  "do_Open env path s =
     (imgconv_Open env (fs s) path, s\<lparr>trace := trace s @ [EvOpen path]\<rparr>)"

definition do_Save :: "('fs, 'img) env \<Rightarrow> string \<Rightarrow> 'img \<Rightarrow> FormatOption \<Rightarrow> ('fs, 'img) state
    \<Rightarrow> error option outcome \<times> ('fs, 'img) state" where
  "do_Save env output base option s =
     (case imgconv_Save env (fs s) output base option of
        (r, fs') \<Rightarrow> (r, s\<lparr>fs := fs', trace := trace s @ [EvSave output]\<rparr>))"

definition do_MkdirAll :: "('fs, 'img) env \<Rightarrow> string \<Rightarrow> nat \<Rightarrow> ('fs, 'img) state
    \<Rightarrow> error option \<times> ('fs, 'img) state" where
  "do_MkdirAll env path perm s =
     (case os_MkdirAll env (fs s) path perm of
        (r, fs') \<Rightarrow> (r, s\<lparr>fs := fs', trace := trace s @ [EvMkdirAll path perm]\<rparr>))"

text \<open>The permission bits \<^verbatim>\<open>0755\<close>: \<^verbatim>\<open>rwxr-xr-x\<close>.\<close>

definition perm_0755 :: nat where
  "perm_0755 = 7 * 64 + 5 * 8 + 5"

section \<open>Saving\<close>

text \<open>
  \<^verbatim>\<open>saveInternal\<close>. The label \<^verbatim>\<open>try_again\<close> with its flag \<^verbatim>\<open>alreadyTried\<close> is a
  function of the flag. The assertion \<^verbatim>\<open>err.(*fs.PathError)\<close> has no second result, so it
  panics on an error of any other dynamic type; where it succeeds the pointer is not nil.
  The result of \<^verbatim>\<open>os.MkdirAll\<close> is ignored.
\<close>

function try_again :: "('fs, 'img) env \<Rightarrow> bool \<Rightarrow> string \<Rightarrow> 'img \<Rightarrow> FormatOption
    \<Rightarrow> ('fs, 'img) state \<Rightarrow> error option outcome \<times> ('fs, 'img) state" where
  "try_again env alreadyTried output base option s =
     (case do_Save env output base option s of
        (Panic r, s1) \<Rightarrow> (Panic r, s1)
      | (Return None, s1) \<Rightarrow> (Return None, s1)
      | (Return (Some err), s1) \<Rightarrow>
          (case err of
             PathError op path errno \<Rightarrow>
               if \<not> alreadyTried then
                 (case do_MkdirAll env (Dir output) perm_0755 s1 of
                    (mkdirErr, s2) \<Rightarrow> try_again env True output base option s2)
               else (Return (Some err), s1)
           | _ \<Rightarrow> (Panic InterfaceConversion, s1)))"
  by pat_completeness auto
termination
  by (relation "measure (\<lambda>(env, alreadyTried, output, base, option, s).
        if alreadyTried then 0 else 1)") auto

declare try_again.simps [simp del]

definition saveInternal :: "('fs, 'img) env \<Rightarrow> string \<Rightarrow> 'img \<Rightarrow> FormatOption
    \<Rightarrow> ('fs, 'img) state \<Rightarrow> error option outcome \<times> ('fs, 'img) state" where
  "saveInternal env output base option s = try_again env False output base option s"

text \<open>
  The deferred \<^verbatim>\<open>recover\<close> of the entry points: a panic of the body becomes the error
  result, and the named result keeps the value it had, which is the zero value because the
  bodies assign it only in their \<^verbatim>\<open>return\<close> statements.
\<close>

definition recover :: "'r \<Rightarrow> ('r \<times> error option) outcome \<times> 'st \<Rightarrow> ('r \<times> error option) \<times> 'st" where
  "recover zero body =
     (case body of
        (Return r, s) \<Rightarrow> (r, s)
      | (Panic p, s) \<Rightarrow> ((zero, Some (RecoveredFromPanic p)), s))"

text \<open>\<^verbatim>\<open>Generator.Save\<close>: the name is the generator's \<^verbatim>\<open>Name\<close> when it has one.\<close>

definition Save_body :: "('fs, 'img) env \<Rightarrow> Generator \<Rightarrow> addr option \<Rightarrow> ('fs, 'img) state
    \<Rightarrow> (GenerationResult \<times> error option) outcome \<times> ('fs, 'img) state" where
  "Save_body env gen i s =
     (case i of
        None \<Rightarrow> (Return (zero_result, Some ErrInvalidImageData), s)
      | Some a \<Rightarrow>
          (case ImageData (heap s a) of
             None \<Rightarrow> (Return (zero_result, Some ErrInvalidImageData), s)
           | Some data \<Rightarrow>
               let basefileName = Base (Path (heap s a));
                   basefileName = (if length (gen_Name gen) > 0 then gen_Name gen else basefileName);
                   directoryPath = DestinationPath gen;
                   destpath = Join [directoryPath, gen_Prefix gen @ basefileName]
               in (case saveInternal env destpath data (PreferredFormat gen) s of
                     (Panic p, s1) \<Rightarrow> (Panic p, s1)
                   | (Return (Some err), s1) \<Rightarrow>
                       (Return (zero_result, Some (FailedToWrite err)), s1)
                   | (Return None, s1) \<Rightarrow>
                       (Return (\<lparr>Filename = basefileName, res_Path = destpath, Error = None\<rparr>,
                                None), s1))))"

definition Save :: "('fs, 'img) env \<Rightarrow> Generator \<Rightarrow> addr option \<Rightarrow> ('fs, 'img) state
    \<Rightarrow> (GenerationResult \<times> error option) \<times> ('fs, 'img) state" where
  "Save env gen i s = recover zero_result (Save_body env gen i s)"

text \<open>
  \<^verbatim>\<open>Generator.SaveWithDimension\<close>. The four variables are declared without a value, so
  each starts as the empty string; \<^verbatim>\<open>destpath\<close> is assigned only under an override and
  \<^verbatim>\<open>directoryPath\<close> only without one.
\<close>

definition SaveWithDimension_body :: "('fs, 'img) env \<Rightarrow> Generator \<Rightarrow> addr option
    \<Rightarrow> ImageDimension option \<Rightarrow> ('fs, 'img) state
    \<Rightarrow> (GenerationResult \<times> error option) outcome \<times> ('fs, 'img) state" where
  "SaveWithDimension_body env gen i imgConf s =
     (case i of
        None \<Rightarrow> (Return (zero_result, Some ErrInvalidImageData), s)
      | Some a \<Rightarrow>
          (case ImageData (heap s a) of
             None \<Rightarrow> (Return (zero_result, Some ErrInvalidImageData), s)
           | Some data \<Rightarrow>
               (case imgConf of
                  None \<Rightarrow> (Return (zero_result, Some ErrInvalidImageData), s)
                | Some conf \<Rightarrow>
                    let prefix = (if length (Prefix conf) > 0 then Prefix conf else gen_Prefix gen);
                        basefileName = (if length (Name conf) > 0 then Base (Name conf)
                                        else Base (Path (heap s a)));
                        destpath = (if length (DestinationOverride conf) > 0
                                    then DestinationOverride conf else []);
                        directoryPath = (if length (DestinationOverride conf) > 0
                                         then [] else DestinationPath gen);
                        fileLocationPath = Join [directoryPath, prefix @ basefileName]
                    in (case saveInternal env fileLocationPath data (PreferredFormat gen) s of
                          (Panic p, s1) \<Rightarrow> (Panic p, s1)
                        | (Return (Some err), s1) \<Rightarrow>
                            (Return (zero_result, Some (FailedToWrite err)), s1)
                        | (Return None, s1) \<Rightarrow>
                            (Return (\<lparr>Filename = basefileName, res_Path = destpath, Error = None\<rparr>,
                                     None), s1)))))"

definition SaveWithDimension :: "('fs, 'img) env \<Rightarrow> Generator \<Rightarrow> addr option
    \<Rightarrow> ImageDimension option \<Rightarrow> ('fs, 'img) state
    \<Rightarrow> (GenerationResult \<times> error option) \<times> ('fs, 'img) state" where
  "SaveWithDimension env gen i imgConf s =
     recover zero_result (SaveWithDimension_body env gen i imgConf s)"

text \<open>\<^verbatim>\<open>SaveRaw\<close> writes with \<^verbatim>\<open>imgconv.Save\<close> directly, without the retry.\<close>

definition SaveRaw_body :: "('fs, 'img) env \<Rightarrow> 'img option \<Rightarrow> string \<Rightarrow> FormatOption
    \<Rightarrow> ('fs, 'img) state \<Rightarrow> (GenerationResult \<times> error option) outcome \<times> ('fs, 'img) state" where
  "SaveRaw_body env i path format s =
     (case i of
        None \<Rightarrow> (Return (zero_result, Some ErrInvalidImageData), s)
      | Some data \<Rightarrow>
          if length path = 0 then (Return (zero_result, Some ErrInvalidImageData), s)
          else
            let basefileName = Base path;
                destpath = path
            in (case do_Save env destpath data format s of
                  (Panic p, s1) \<Rightarrow> (Panic p, s1)
                | (Return (Some err), s1) \<Rightarrow>
                    (Return (zero_result, Some (FailedToWrite err)), s1)
                | (Return None, s1) \<Rightarrow>
                    (Return (\<lparr>Filename = basefileName, res_Path = destpath, Error = None\<rparr>,
                             None), s1)))"

definition SaveRaw :: "('fs, 'img) env \<Rightarrow> 'img option \<Rightarrow> string \<Rightarrow> FormatOption
    \<Rightarrow> ('fs, 'img) state \<Rightarrow> (GenerationResult \<times> error option) \<times> ('fs, 'img) state" where
  "SaveRaw env i path format s = recover zero_result (SaveRaw_body env i path format s)"

section \<open>Resizing\<close>

text \<open>
  The package-level \<^verbatim>\<open>CreateThumbnail\<close>. It reads the image through the pointer and
  changes nothing.
\<close>

definition resize_to :: "('fs, 'img) env \<Rightarrow> 'img \<Rightarrow> ResizeOption
    \<Rightarrow> ('img option \<times> error option) outcome" where
  "resize_to env data opt =
     (case imgconv_Resize env data opt of
        Panic p \<Rightarrow> Panic p
      | Return mark \<Rightarrow> Return (Some mark, None))"

definition CreateThumbnail_body :: "('fs, 'img) env \<Rightarrow> ('fs, 'img) state \<Rightarrow> addr option
    \<Rightarrow> ImageDimension \<Rightarrow> ('img option \<times> error option) outcome" where
  "CreateThumbnail_body env s i dimension =
     (case i of
        None \<Rightarrow> Return (None, Some ErrInvalidImageData)
      | Some a \<Rightarrow>
          (case ImageData (heap s a) of
             None \<Rightarrow> Return (None, Some ErrInvalidImageData)
           | Some data \<Rightarrow>
               if float_gt_zero (Percentage dimension) then
                 resize_to env data
                   \<lparr>opt_Width = 0, opt_Height = 0, Percent = Percentage dimension\<rparr>
               else if Width dimension > 0 \<and> Height dimension > 0 then
                 resize_to env data
                   \<lparr>opt_Width = Width dimension, opt_Height = Height dimension,
                    Percent = Finite 0\<rparr>
               else if Width dimension > 0 then
                 resize_to env data
                   \<lparr>opt_Width = Width dimension, opt_Height = 0, Percent = Finite 0\<rparr>
               else if Height dimension > 0 then
                 resize_to env data
                   \<lparr>opt_Width = 0, opt_Height = Height dimension, Percent = Finite 0\<rparr>
               else Return (None, Some ErrInvalidNoTransformProvided)))"

definition CreateThumbnail :: "('fs, 'img) env \<Rightarrow> ('fs, 'img) state \<Rightarrow> addr option
    \<Rightarrow> ImageDimension \<Rightarrow> 'img option \<times> error option" where
  "CreateThumbnail env s i dimension =
     fst (recover None (CreateThumbnail_body env s i dimension, ()))"

definition GetProcessedImage :: "('fs, 'img) env \<Rightarrow> Generator \<Rightarrow> ('fs, 'img) state
    \<Rightarrow> addr option \<Rightarrow> ImageDimension \<Rightarrow> 'img option \<times> error option" where
  "GetProcessedImage env gen s i dimension = CreateThumbnail env s i dimension"

text \<open>
  The resize step of the older copy of the package (its \<^verbatim>\<open>GetProcessedImage\<close> and its
  \<^verbatim>\<open>CreateThumbnail\<close> method have the same body): one test for a width or a height, and
  both handed on as they are.
\<close>

definition GetProcessedImage_old :: "('fs, 'img) env \<Rightarrow> ('fs, 'img) state \<Rightarrow> addr option
    \<Rightarrow> ImageDimension \<Rightarrow> 'img option \<times> error option" where
  "GetProcessedImage_old env s i dimension =
     fst (recover None
       ((case i of
           None \<Rightarrow> Return (None, Some ErrInvalidImageData)
         | Some a \<Rightarrow>
             (case ImageData (heap s a) of
                None \<Rightarrow> Return (None, Some ErrInvalidImageData)
              | Some data \<Rightarrow>
                  if float_gt_zero (Percentage dimension) then
                    resize_to env data
                      \<lparr>opt_Width = 0, opt_Height = 0, Percent = Percentage dimension\<rparr>
                  else if Width dimension > 0 \<or> Height dimension > 0 then
                    resize_to env data
                      \<lparr>opt_Width = Width dimension, opt_Height = Height dimension,
                       Percent = Finite 0\<rparr>
                  else Return (None, Some ErrInvalidNoTransformProvided))), ()))"

section \<open>Loading\<close>

text \<open>
  \<^verbatim>\<open>ImageFromFile\<close> returns either nil and the error or a new \<open>Image\<close> and no error, which
  is a sum.
\<close>

definition ImageFromFile :: "('fs, 'img) env \<Rightarrow> string \<Rightarrow> ('fs, 'img) state
    \<Rightarrow> (error + addr) \<times> ('fs, 'img) state" where
  "ImageFromFile env path s =
     (case do_Open env path s of
        (Inl err, s1) \<Rightarrow> (Inl err, s1)
      | (Inr src, s1) \<Rightarrow>
          (case alloc \<lparr>Path = path, ImageData = Some src,
                       Size = \<lparr>size_Width = fst (Bounds_Max env src),
                               size_Height = snd (Bounds_Max env src)\<rparr>,
                       TargetDimension = DefaultThumbnailSize\<rparr> s1 of
             (a, s2) \<Rightarrow> (Inr a, s2)))"

definition set_TargetDimension :: "Generator \<Rightarrow> addr \<Rightarrow> ('fs, 'img) state \<Rightarrow> ('fs, 'img) state" where
  "set_TargetDimension gen a s =
     s\<lparr>heap := (heap s)(a := (heap s a)\<lparr>TargetDimension :=
          \<lparr>size_Width = gen_Width gen, size_Height = gen_Height gen\<rparr>\<rparr>)\<rparr>"

definition NewImageFromFilewWithDefault :: "('fs, 'img) env \<Rightarrow> Generator \<Rightarrow> string \<Rightarrow> string
    \<Rightarrow> ('fs, 'img) state \<Rightarrow> (error + addr) \<times> ('fs, 'img) state" where
  "NewImageFromFilewWithDefault env gen path defaultImg s =
     (case ImageFromFile env path s of
        (Inr img, s1) \<Rightarrow> (Inr img, set_TargetDimension gen img s1)
      | (Inl err, s1) \<Rightarrow>
          if defaultImg \<noteq> [] then
            (case ImageFromFile env defaultImg s1 of
               (Inl err, s2) \<Rightarrow> (Inl err, s2)
             | (Inr img, s2) \<Rightarrow> (Inr img, set_TargetDimension gen img s2))
          else (Inl err, s1))"

section \<open>Generate\<close>

text \<open>
  One pass of the loop of \<^verbatim>\<open>Generate\<close>, giving the result it appends. \<^verbatim>\<open>img := i\<close>
  copies the pointer, so the assignment to \<^verbatim>\<open>img.ImageData\<close> writes the caller's
  \<open>Image\<close>. \<^verbatim>\<open>Generate\<close> itself recovers nothing: reading \<^verbatim>\<open>i.Path\<close> through a nil
  pointer panics.
\<close>

definition set_ImageData :: "addr \<Rightarrow> 'img option \<Rightarrow> ('fs, 'img) state \<Rightarrow> ('fs, 'img) state" where
  "set_ImageData a thumbImg s = s\<lparr>heap := (heap s)(a := (heap s a)\<lparr>ImageData := thumbImg\<rparr>)\<rparr>"

definition Generate_body :: "('fs, 'img) env \<Rightarrow> Generator \<Rightarrow> addr option \<Rightarrow> ImageDimension
    \<Rightarrow> ('fs, 'img) state \<Rightarrow> GenerationResult outcome \<times> ('fs, 'img) state" where
  "Generate_body env gen i outputFormat s =
     (case GetProcessedImage env gen s i outputFormat of
        (thumbImg, Some err) \<Rightarrow>
          (case i of
             None \<Rightarrow> (Panic NilPointerDereference, s)
           | Some a \<Rightarrow>
               (Return \<lparr>Filename = Path (heap s a), res_Path = Path (heap s a),
                        Error = Some err\<rparr>, s))
      | (thumbImg, None) \<Rightarrow>
          (case i of
             None \<Rightarrow> (Panic NilPointerDereference, s)
           | Some a \<Rightarrow>
               (case SaveWithDimension env gen i (Some outputFormat) (set_ImageData a thumbImg s) of
                  ((save, Some err), s2) \<Rightarrow>
                    (Return \<lparr>Filename = Path (heap s2 a), res_Path = Path (heap s2 a),
                             Error = Some err\<rparr>, s2)
                | ((save, None), s2) \<Rightarrow> (Return save, s2))))"

fun Generate_loop :: "('fs, 'img) env \<Rightarrow> Generator \<Rightarrow> addr option \<Rightarrow> ImageDimension list
    \<Rightarrow> GenerationResult list \<Rightarrow> ('fs, 'img) state
    \<Rightarrow> (GenerationResult list \<times> error option) outcome \<times> ('fs, 'img) state" where
  "Generate_loop env gen i [] result s = (Return (result, None), s)"
| "Generate_loop env gen i (outputFormat # rest) result s =
     (case Generate_body env gen i outputFormat s of
        (Panic p, s1) \<Rightarrow> (Panic p, s1)
      | (Return r, s1) \<Rightarrow> Generate_loop env gen i rest (result @ [r]) s1)"

text \<open>A nil slice and an empty slice are both the empty list.\<close>

definition Generate :: "('fs, 'img) env \<Rightarrow> Generator \<Rightarrow> addr option \<Rightarrow> ('fs, 'img) state
    \<Rightarrow> (GenerationResult list \<times> error option) outcome \<times> ('fs, 'img) state" where
  "Generate env gen i s =
     (if length (OutputFormats gen) = 0 then (Return ([], Some ErrInvalidNoTransformProvided), s)
      else Generate_loop env gen i (OutputFormats gen) [] s)"

section \<open>Notions used to state the properties\<close>

fun is_PathError :: "error \<Rightarrow> bool" where
  "is_PathError (PathError op path errno) = True"
| "is_PathError e = False"

text \<open>The paths of the write attempts among a sequence of events.\<close>

fun save_paths :: "event list \<Rightarrow> string list" where
  "save_paths [] = []"
| "save_paths (EvSave p # evs) = p # save_paths evs"
| "save_paths (ev # evs) = save_paths evs"

text \<open>The events a call added: those of the state after it beyond those of the state before.\<close>

definition new_events :: "('fs, 'img) state \<Rightarrow> ('fs, 'img) state \<Rightarrow> event list" where
  "new_events s s' = drop (length (trace s)) (trace s')"

text \<open>
  The resize modes as the specification words them, chosen by the first test that
  succeeds, and the option record each mode hands to the resize engine.
\<close>

datatype resize_mode =
    Proportional float64
  | Exact int int
  | ByWidth int
  | ByHeight int

definition spec_resize_mode :: "ImageDimension \<Rightarrow> resize_mode option" where
  "spec_resize_mode d =
     (if float_gt_zero (Percentage d) then Some (Proportional (Percentage d))
      else if Width d > 0 \<and> Height d > 0 then Some (Exact (Width d) (Height d))
      else if Width d > 0 then Some (ByWidth (Width d))
      else if Height d > 0 then Some (ByHeight (Height d))
      else None)"

fun mode_option :: "resize_mode \<Rightarrow> ResizeOption" where
  "mode_option (Proportional p) = \<lparr>opt_Width = 0, opt_Height = 0, Percent = p\<rparr>"
| "mode_option (Exact w h) = \<lparr>opt_Width = w, opt_Height = h, Percent = Finite 0\<rparr>"
| "mode_option (ByWidth w) = \<lparr>opt_Width = w, opt_Height = 0, Percent = Finite 0\<rparr>"
| "mode_option (ByHeight h) = \<lparr>opt_Width = 0, opt_Height = h, Percent = Finite 0\<rparr>"

text \<open>What an entry point returns for one call of the resize engine.\<close>

definition resized :: "('fs, 'img) env \<Rightarrow> 'img \<Rightarrow> ResizeOption \<Rightarrow> 'img option \<times> error option" where
  "resized env data opt =
     (case imgconv_Resize env data opt of
        Return mark \<Rightarrow> (Some mark, None)
      | Panic p \<Rightarrow> (None, Some (RecoveredFromPanic p)))"

text \<open>The state in which the loop of \<^verbatim>\<open>Generate\<close> starts its pass number \<open>k\<close>, counted from 0.\<close>

fun state_before :: "('fs, 'img) env \<Rightarrow> Generator \<Rightarrow> addr option \<Rightarrow> ImageDimension list \<Rightarrow> nat
    \<Rightarrow> ('fs, 'img) state \<Rightarrow> ('fs, 'img) state" where
  "state_before env gen i ds 0 s = s"
| "state_before env gen i [] (Suc k) s = s"
| "state_before env gen i (d # ds) (Suc k) s =
     state_before env gen i ds k (snd (Generate_body env gen i d s))"

text \<open>
  The resize of pixel data as the specification describes it: no pixel data is an error,
  otherwise the mode chosen decides.
\<close>

definition resize_pixels :: "('fs, 'img) env \<Rightarrow> 'img option \<Rightarrow> ImageDimension
    \<Rightarrow> 'img option \<times> error option" where
  "resize_pixels env x d =
     (case x of
        None \<Rightarrow> (None, Some ErrInvalidImageData)
      | Some data \<Rightarrow>
          (case spec_resize_mode d of
             None \<Rightarrow> (None, Some ErrInvalidNoTransformProvided)
           | Some m \<Rightarrow> resized env data (mode_option m)))"

text \<open>
  The pixel data left by a chain of resizes: each specification resizes what the last
  successful resize before it produced, and a failed resize leaves the pixels as they were.
\<close>

fun chained_pixels :: "('fs, 'img) env \<Rightarrow> 'img option \<Rightarrow> ImageDimension list \<Rightarrow> 'img option" where
  "chained_pixels env x [] = x"
| "chained_pixels env x (d # ds) =
     (case resize_pixels env x d of
        (t, None) \<Rightarrow> chained_pixels env t ds
      | (t, Some err) \<Rightarrow> chained_pixels env x ds)"

section \<open>A sample environment\<close>

text \<open>
  An environment to run the model in. An image is the path it was opened from and the
  resize options applied to it since; the resize engine panics on a width that does not
  fit 16 bits. The file-system state is a script: the results of the coming calls of
  \<^verbatim>\<open>imgconv.Save\<close>, in order, and success once the script is used up. The files that
  can be opened are a parameter.
\<close>

type_synonym pixels = "string \<times> ResizeOption list"
type_synonym script = "error option outcome list"

definition sample_env :: "string list \<Rightarrow> (script, pixels) env" where
  "sample_env files =
     \<lparr>imgconv_Open = (\<lambda>fs path. if path \<in> set files then Inr (path, [])
                                 else Inl (PathError ''open'' path ENOENT)),
      imgconv_Save = (\<lambda>fs output base option.
                        case fs of [] \<Rightarrow> (Return None, []) | r # rest \<Rightarrow> (r, rest)),
      imgconv_Resize = (\<lambda>base opt. if opt_Width opt > 65535
                                    then Panic (LibraryPanic ''image too large'')
                                    else Return (fst base, snd base @ [opt])),
      os_MkdirAll = (\<lambda>fs path perm. (None, fs)),
      Bounds_Max = (\<lambda>base. (640, 480))\<rparr>"

definition sample_image :: "pixels Image" where
  "sample_image =
     \<lparr>Path = ''/tmp/c.png'', ImageData = Some (''/tmp/c.png'', []),
      Size = \<lparr>size_Width = 640, size_Height = 480\<rparr>,
      TargetDimension = DefaultThumbnailSize\<rparr>"

text \<open>A state whose heap holds the given image at every address, with the given script.\<close>

definition sample_state :: "script \<Rightarrow> pixels Image \<Rightarrow> (script, pixels) state" where
  "sample_state scr img = \<lparr>fs = scr, trace = [], heap = (\<lambda>a. img), next_addr = 1\<rparr>"

definition sample_gen :: "ImageDimension list \<Rightarrow> Generator" where
  "sample_gen ds =
     \<lparr>gen_Width = 300, gen_Height = 300, PreferredFormat = \<lparr>Format = JPEG\<rparr>,
      gen_Name = ''b.png'', DestinationPath = ''/out'', gen_Prefix = ''thumb_'',
      OutputFormats = ds\<rparr>"

definition sample_dim :: "int \<Rightarrow> int \<Rightarrow> ImageDimension" where
  "sample_dim w h =
     \<lparr>Width = w, Height = h, Percentage = Finite 0, Prefix = [], Name = [],
      DestinationOverride = []\<rparr>"

definition override_dim :: "string \<Rightarrow> string \<Rightarrow> ImageDimension" where
  "override_dim n ov = (sample_dim 100 0)\<lparr>Name := n, DestinationOverride := ov\<rparr>"

section \<open>Facts about the path functions\<close>

lemma Clean_nonempty: "Clean p \<noteq> []"
  by (simp add: Clean_def Let_def)

lemma Base_nonempty: "Base p \<noteq> []"
  by (simp add: Base_def Let_def)

lemma Join_nonempty: "x \<noteq> [] \<Longrightarrow> Join [d, x] \<noteq> []"
  by (simp add: Join_def Clean_nonempty)

lemmas path_simps = Base_def Join_def Clean_def Dir_def IsPathSeparator_def

lemmas sample_simps = sample_env_def sample_state_def sample_image_def sample_gen_def
  sample_dim_def override_dim_def

section \<open>The retry of saveInternal\<close>

lemma do_Save_effect:
  "do_Save env output base option s = (r, s1) \<Longrightarrow>
     trace s1 = trace s @ [EvSave output] \<and> heap s1 = heap s \<and> next_addr s1 = next_addr s"
  by (auto simp: do_Save_def split: prod.splits)

lemma do_MkdirAll_effect:
  "do_MkdirAll env path perm s = (r, s1) \<Longrightarrow>
     trace s1 = trace s @ [EvMkdirAll path perm] \<and> heap s1 = heap s \<and> next_addr s1 = next_addr s"
  by (auto simp: do_MkdirAll_def split: prod.splits)

text \<open>The second pass, with the flag set, never goes round again.\<close>

lemma try_again_True:
  "try_again env True output base option s =
     (case do_Save env output base option s of
        (Panic r, s1) \<Rightarrow> (Panic r, s1)
      | (Return None, s1) \<Rightarrow> (Return None, s1)
      | (Return (Some err), s1) \<Rightarrow>
          if is_PathError err then (Return (Some err), s1) else (Panic InterfaceConversion, s1))"
  by (subst try_again.simps) (auto split: prod.splits outcome.splits option.splits error.splits)

lemma try_again_False:
  "try_again env False output base option s =
     (case do_Save env output base option s of
        (Panic r, s1) \<Rightarrow> (Panic r, s1)
      | (Return None, s1) \<Rightarrow> (Return None, s1)
      | (Return (Some err), s1) \<Rightarrow>
          if is_PathError err
          then try_again env True output base option
                 (snd (do_MkdirAll env (Dir output) perm_0755 s1))
          else (Panic InterfaceConversion, s1))"
  by (subst try_again.simps) (auto split: prod.splits outcome.splits option.splits error.splits)

lemma try_again_True_effect:
  "try_again env True output base option s = (r, s') \<Longrightarrow>
     trace s' = trace s @ [EvSave output] \<and> heap s' = heap s \<and> next_addr s' = next_addr s"
  by (auto simp: try_again_True split: prod.splits outcome.splits option.splits if_splits
           dest: do_Save_effect)

lemma saveInternal_effect:
  assumes "saveInternal env output base option s = (r, s')"
  shows "(trace s' = trace s @ [EvSave output] \<or>
          trace s' = trace s @ [EvSave output, EvMkdirAll (Dir output) perm_0755, EvSave output])
         \<and> heap s' = heap s \<and> next_addr s' = next_addr s"
proof -
  obtain r1 s1 where first: "do_Save env output base option s = (r1, s1)"
    by (cases "do_Save env output base option s")
  note e1 = do_Save_effect [OF first]
  show ?thesis
  proof (cases "\<exists>err. r1 = Return (Some err) \<and> is_PathError err")
    case False
    with assms first have "s' = s1"
      by (auto simp: saveInternal_def try_again_False split: outcome.splits option.splits if_splits)
    with e1 show ?thesis by simp
  next
    case True
    obtain m s2 where mk: "do_MkdirAll env (Dir output) perm_0755 s1 = (m, s2)"
      by (cases "do_MkdirAll env (Dir output) perm_0755 s1")
    note e2 = do_MkdirAll_effect [OF mk]
    from True assms first mk have "try_again env True output base option s2 = (r, s')"
      by (auto simp: saveInternal_def try_again_False)
    from try_again_True_effect [OF this] e1 e2 show ?thesis by simp
  qed
qed

lemma saveInternal_save_paths:
  assumes "saveInternal env output base option s = (r, s')"
  shows "set (save_paths (new_events s s')) = {output}"
  using saveInternal_effect [OF assms] by (auto simp: new_events_def)

lemmas save_simps = SaveWithDimension_def SaveWithDimension_body_def Save_def Save_body_def
  SaveRaw_def SaveRaw_body_def recover_def saveInternal_def try_again_False try_again_True
  do_Save_def do_MkdirAll_def zero_result_def perm_0755_def new_events_def Let_def

lemmas generate_simps = Generate_def Generate_body_def GetProcessedImage_def CreateThumbnail_def
  CreateThumbnail_body_def resize_to_def set_ImageData_def
  resize_pixels_def spec_resize_mode_def resized_def

text \<open>
  C6, as the specification states it, fails: the first write attempt below fails with a
  permission error, which is not a missing directory, and yet the directory is created, the
  write is attempted a second time and the caller gets no error at all.
\<close>

theorem saveInternal_retry_counterexample:
  "fst (do_Save (sample_env []) ''/out/a.jpg'' (''/tmp/c.png'', []) \<lparr>Format = JPEG\<rparr>
         (sample_state [Return (Some (PathError ''open'' ''/out/a.jpg'' EACCES))] sample_image))
     = Return (Some (PathError ''open'' ''/out/a.jpg'' EACCES))
   \<and> fst (saveInternal (sample_env []) ''/out/a.jpg'' (''/tmp/c.png'', []) \<lparr>Format = JPEG\<rparr>
         (sample_state [Return (Some (PathError ''open'' ''/out/a.jpg'' EACCES))] sample_image))
     = Return None
   \<and> trace (snd (saveInternal (sample_env []) ''/out/a.jpg'' (''/tmp/c.png'', [])
         \<lparr>Format = JPEG\<rparr>
         (sample_state [Return (Some (PathError ''open'' ''/out/a.jpg'' EACCES))] sample_image)))
     = [EvSave ''/out/a.jpg'', EvMkdirAll ''/out'' 493, EvSave ''/out/a.jpg'']"
  by (simp add: save_simps sample_simps path_simps)

text \<open>
  C6, amended. A first write attempt that succeeds is the only one. A first attempt that
  fails with a path error of any kind, a missing directory included, is followed by the
  creation of the directory tree of the output path with the permissions \<^verbatim>\<open>0755\<close>, whose
  own result is ignored, and by exactly one more write attempt; when that second attempt
  succeeds or fails with a path error, its result is what the caller gets, unmodified. No
  call makes more than two write attempts.
\<close>

theorem saveInternal_retries_once_on_path_error:
  "(do_Save env output base option s = (Return None, s1) \<longrightarrow>
      saveInternal env output base option s = (Return None, s1) \<and>
      new_events s s1 = [EvSave output])
   \<and> (do_Save env output base option s = (Return (Some (PathError op p e)), s1) \<and>
      do_MkdirAll env (Dir output) perm_0755 s1 = (m, s2) \<and>
      do_Save env output base option s2 = (r2, s3) \<and>
      (r2 = Return None \<or> (\<exists>err. r2 = Return (Some err) \<and> is_PathError err)) \<longrightarrow>
      saveInternal env output base option s = (r2, s3) \<and>
      new_events s s3 = [EvSave output, EvMkdirAll (Dir output) perm_0755, EvSave output])
   \<and> length (save_paths (new_events s (snd (saveInternal env output base option s)))) \<le> 2"
proof (intro conjI impI)
  assume a: "do_Save env output base option s = (Return None, s1)"
  then show "saveInternal env output base option s = (Return None, s1)"
    by (simp add: saveInternal_def try_again_False)
  from do_Save_effect [OF a] show "new_events s s1 = [EvSave output]"
    by (simp add: new_events_def)
next
  assume a: "do_Save env output base option s = (Return (Some (PathError op p e)), s1) \<and>
      do_MkdirAll env (Dir output) perm_0755 s1 = (m, s2) \<and>
      do_Save env output base option s2 = (r2, s3) \<and>
      (r2 = Return None \<or> (\<exists>err. r2 = Return (Some err) \<and> is_PathError err))"
  then show "saveInternal env output base option s = (r2, s3)"
    by (auto simp: saveInternal_def try_again_False try_again_True)
  from a have "trace s1 = trace s @ [EvSave output]"
    and "trace s2 = trace s1 @ [EvMkdirAll (Dir output) perm_0755]"
    and "trace s3 = trace s2 @ [EvSave output]"
    by (auto dest: do_Save_effect do_MkdirAll_effect)
  then show "new_events s s3 = [EvSave output, EvMkdirAll (Dir output) perm_0755, EvSave output]"
    by (simp add: new_events_def)
next
  obtain r s' where res: "saveInternal env output base option s = (r, s')"
    by (cases "saveInternal env output base option s")
  from saveInternal_effect [OF res]
  show "length (save_paths (new_events s (snd (saveInternal env output base option s)))) \<le> 2"
    by (auto simp: res new_events_def)
qed

text \<open>
  The amended C6 at work: the directory \<^verbatim>\<open>/out\<close> is missing at the first attempt, it is
  created with \<^verbatim>\<open>0755\<close> (493), and the second attempt succeeds.
\<close>

theorem saveInternal_retries_once_on_path_error_witness:
  "saveInternal (sample_env []) ''/out/a.jpg'' (''/tmp/c.png'', []) \<lparr>Format = JPEG\<rparr>
       (sample_state [Return (Some (PathError ''open'' ''/out/a.jpg'' ENOENT))] sample_image)
     = (Return None,
        (sample_state [] sample_image)
          \<lparr>trace := [EvSave ''/out/a.jpg'', EvMkdirAll ''/out'' 493, EvSave ''/out/a.jpg'']\<rparr>)
   \<and> new_events
        (sample_state [Return (Some (PathError ''open'' ''/out/a.jpg'' ENOENT))] sample_image)
        ((sample_state [] sample_image)
          \<lparr>trace := [EvSave ''/out/a.jpg'', EvMkdirAll ''/out'' 493, EvSave ''/out/a.jpg'']\<rparr>)
     = [EvSave ''/out/a.jpg'', EvMkdirAll (Dir ''/out/a.jpg'') perm_0755, EvSave ''/out/a.jpg'']"
proof -
  have h: "do_Save (sample_env []) ''/out/a.jpg'' (''/tmp/c.png'', []) \<lparr>Format = JPEG\<rparr>
        (sample_state [Return (Some (PathError ''open'' ''/out/a.jpg'' ENOENT))] sample_image)
      = (Return (Some (PathError ''open'' ''/out/a.jpg'' ENOENT)),
         (sample_state [] sample_image)\<lparr>trace := [EvSave ''/out/a.jpg'']\<rparr>) \<and>
    do_MkdirAll (sample_env []) (Dir ''/out/a.jpg'') perm_0755
        ((sample_state [] sample_image)\<lparr>trace := [EvSave ''/out/a.jpg'']\<rparr>)
      = (None, (sample_state [] sample_image)
                 \<lparr>trace := [EvSave ''/out/a.jpg'', EvMkdirAll ''/out'' 493]\<rparr>) \<and>
    do_Save (sample_env []) ''/out/a.jpg'' (''/tmp/c.png'', []) \<lparr>Format = JPEG\<rparr>
        ((sample_state [] sample_image)
           \<lparr>trace := [EvSave ''/out/a.jpg'', EvMkdirAll ''/out'' 493]\<rparr>)
      = (Return None, (sample_state [] sample_image)
           \<lparr>trace := [EvSave ''/out/a.jpg'', EvMkdirAll ''/out'' 493, EvSave ''/out/a.jpg'']\<rparr>) \<and>
    (Return None = (Return None :: error option outcome) \<or>
     (\<exists>err. Return None = Return (Some err) \<and> is_PathError err))"
    by (simp add: do_Save_def do_MkdirAll_def sample_simps path_simps perm_0755_def)
  from saveInternal_retries_once_on_path_error
    [THEN conjunct2, THEN conjunct1, rule_format, OF h]
  show ?thesis .
qed

section \<open>Names and locations of SaveWithDimension\<close>

lemma recover_None:
  "recover zero body = ((r, None), s') \<longleftrightarrow> body = (Return (r, None), s')"
  by (auto simp: recover_def split: prod.splits outcome.splits)

text \<open>What a call that reports no error has done and returned.\<close>

lemma SaveWithDimension_success:
  assumes "SaveWithDimension env gen (Some a) (Some conf) s = ((r, None), s')"
  shows "\<exists>data. ImageData (heap s a) = Some data \<and>
           saveInternal env
             (Join [if DestinationOverride conf \<noteq> [] then [] else DestinationPath gen,
                    (if Prefix conf \<noteq> [] then Prefix conf else gen_Prefix gen) @
                    (if Name conf \<noteq> [] then Base (Name conf) else Base (Path (heap s a)))])
             data (PreferredFormat gen) s = (Return None, s') \<and>
           r = \<lparr>Filename = (if Name conf \<noteq> [] then Base (Name conf) else Base (Path (heap s a))),
                res_Path = (if DestinationOverride conf \<noteq> [] then DestinationOverride conf else []),
                Error = None\<rparr>"
  using assms
  by (auto simp: SaveWithDimension_def recover_None SaveWithDimension_body_def Let_def
           split: option.splits prod.splits outcome.splits if_splits)

text \<open>The generator's \<^verbatim>\<open>Name\<close> has no influence on \<^verbatim>\<open>SaveWithDimension\<close>.\<close>

lemma SaveWithDimension_gen_Name_irrelevant:
  "SaveWithDimension env (gen\<lparr>gen_Name := n\<rparr>) i imgConf s = SaveWithDimension env gen i imgConf s"
  by (simp add: SaveWithDimension_def SaveWithDimension_body_def Let_def split: option.splits)

text \<open>
  C1 against the code. The generator's default name is \<^verbatim>\<open>b.png\<close>, the specification has
  no name and the image comes from \<^verbatim>\<open>/tmp/c.png\<close>. The claim resolves \<^verbatim>\<open>b.png\<close>;
  \<^verbatim>\<open>SaveWithDimension\<close> returns \<^verbatim>\<open>c.png\<close> and writes \<^verbatim>\<open>/out/thumb_c.png\<close>, also
  when \<^verbatim>\<open>Generate\<close> calls it on a generator that \<^verbatim>\<open>NewGenerator\<close> has made, whereas
  \<^verbatim>\<open>Save\<close>, on the same generator and image, uses the default name.
\<close>

theorem SaveWithDimension_skips_default_name:
  "gen_Name (sample_gen []) = ''b.png'' \<and> Name (sample_dim 100 0) = []
   \<and> Path (heap (sample_state [] sample_image) 0) = ''/tmp/c.png''
   \<and> SaveWithDimension (sample_env []) (sample_gen []) (Some 0) (Some (sample_dim 100 0))
        (sample_state [] sample_image)
     = ((\<lparr>Filename = ''c.png'', res_Path = [], Error = None\<rparr>, None),
        (sample_state [] sample_image)\<lparr>trace := [EvSave ''/out/thumb_c.png'']\<rparr>)
   \<and> gen_Name (NewGenerator (sample_gen []) [sample_dim 100 0]) = ''b.png''
   \<and> fst (Generate (sample_env []) (NewGenerator (sample_gen []) [sample_dim 100 0]) (Some 0)
        (sample_state [] sample_image))
     = Return ([\<lparr>Filename = ''c.png'', res_Path = [], Error = None\<rparr>], None)
   \<and> Save (sample_env []) (sample_gen []) (Some 0) (sample_state [] sample_image)
     = ((\<lparr>Filename = ''b.png'', res_Path = ''/out/thumb_b.png'', Error = None\<rparr>, None),
        (sample_state [] sample_image)\<lparr>trace := [EvSave ''/out/thumb_b.png'']\<rparr>)"
  by (simp add: save_simps generate_simps NewGenerator_def sample_simps path_simps)

text \<open>
  C2, as the specification states it, fails. With the prefix \<^verbatim>\<open>thumb_\<close>, the name
  \<^verbatim>\<open>a.png\<close> and the override \<^verbatim>\<open>/elsewhere/x.jpg\<close>, the returned \<open>Filename\<close> is
  \<^verbatim>\<open>a.png\<close>, not the prefixed \<^verbatim>\<open>thumb_a.png\<close>, and the only write goes to
  \<^verbatim>\<open>thumb_a.png\<close>, not to the override.
\<close>

theorem SaveWithDimension_override_counterexample:
  "SaveWithDimension (sample_env []) (sample_gen []) (Some 0)
      (Some (override_dim ''a.png'' ''/elsewhere/x.jpg'')) (sample_state [] sample_image)
     = ((\<lparr>Filename = ''a.png'', res_Path = ''/elsewhere/x.jpg'', Error = None\<rparr>, None),
        (sample_state [] sample_image)\<lparr>trace := [EvSave ''thumb_a.png'']\<rparr>)
   \<and> gen_Prefix (sample_gen []) @ ''a.png'' = ''thumb_a.png''"
  by (simp add: save_simps sample_simps path_simps)

text \<open>
  C2, amended. For every save with a dimension specification that reports no error: the
  returned \<open>Filename\<close> is the resolved base name alone, without the prefix, whether or
  not there is a destination override; a non-empty override is returned verbatim as the
  \<open>Path\<close> of the result; and with an empty override every write of the call goes to the
  generator's destination directory joined with prefix and file name.
\<close>

theorem SaveWithDimension_filename_and_location:
  assumes "SaveWithDimension env gen (Some a) (Some conf) s = ((r, None), s')"
  shows "Filename r = (if Name conf \<noteq> [] then Base (Name conf) else Base (Path (heap s a)))
       \<and> (DestinationOverride conf \<noteq> [] \<longrightarrow> res_Path r = DestinationOverride conf)
       \<and> (DestinationOverride conf = [] \<longrightarrow>
            set (save_paths (new_events s s')) =
              {Join [DestinationPath gen,
                     (if Prefix conf \<noteq> [] then Prefix conf else gen_Prefix gen) @ Filename r]})"
proof -
  from SaveWithDimension_success [OF assms] obtain data where
    sv: "saveInternal env
             (Join [if DestinationOverride conf \<noteq> [] then [] else DestinationPath gen,
                    (if Prefix conf \<noteq> [] then Prefix conf else gen_Prefix gen) @
                    (if Name conf \<noteq> [] then Base (Name conf) else Base (Path (heap s a)))])
             data (PreferredFormat gen) s = (Return None, s')"
    and r: "r = \<lparr>Filename = (if Name conf \<noteq> [] then Base (Name conf) else Base (Path (heap s a))),
                res_Path = (if DestinationOverride conf \<noteq> [] then DestinationOverride conf else []),
                Error = None\<rparr>"
    by blast
  from saveInternal_save_paths [OF sv] r show ?thesis by simp
qed

text \<open>
  The amended C2 on a specification with the name \<^verbatim>\<open>dir/a.png\<close> and no override: the
  file name is \<^verbatim>\<open>a.png\<close> and the write goes to \<^verbatim>\<open>/out/thumb_a.png\<close>.
\<close>

theorem SaveWithDimension_filename_and_location_witness:
  "SaveWithDimension (sample_env []) (sample_gen []) (Some 0)
      (Some (override_dim ''dir/a.png'' [])) (sample_state [] sample_image)
     = ((\<lparr>Filename = ''a.png'', res_Path = [], Error = None\<rparr>, None),
        (sample_state [] sample_image)\<lparr>trace := [EvSave ''/out/thumb_a.png'']\<rparr>)
   \<and> set (save_paths (new_events (sample_state [] sample_image)
         ((sample_state [] sample_image)\<lparr>trace := [EvSave ''/out/thumb_a.png'']\<rparr>)))
       = {Join [''/out'', ''thumb_'' @ ''a.png'']}"
proof -
  have h: "SaveWithDimension (sample_env []) (sample_gen []) (Some 0)
      (Some (override_dim ''dir/a.png'' [])) (sample_state [] sample_image)
     = ((\<lparr>Filename = ''a.png'', res_Path = [], Error = None\<rparr>, None),
        (sample_state [] sample_image)\<lparr>trace := [EvSave ''/out/thumb_a.png'']\<rparr>)"
    by (simp add: save_simps sample_simps path_simps)
  from SaveWithDimension_filename_and_location [OF h]
  have "set (save_paths (new_events (sample_state [] sample_image)
         ((sample_state [] sample_image)\<lparr>trace := [EvSave ''/out/thumb_a.png'']\<rparr>)))
       = {Join [''/out'', ''thumb_'' @ ''a.png'']}"
    by (simp add: sample_gen_def sample_dim_def override_dim_def)
  with h show ?thesis by simp
qed

text \<open>
  C10, as stated, fails in its last clause: with the prefix \<^verbatim>\<open>thumb_\<close>, the name
  \<^verbatim>\<open>a.png\<close> and the override \<^verbatim>\<open>thumb_a.png\<close>, the returned \<open>Path\<close> is exactly the
  location of the only write.
\<close>

theorem SaveWithDimension_path_counterexample:
  "SaveWithDimension (sample_env []) (sample_gen []) (Some 0)
      (Some (override_dim ''a.png'' ''thumb_a.png'')) (sample_state [] sample_image)
     = ((\<lparr>Filename = ''a.png'', res_Path = ''thumb_a.png'', Error = None\<rparr>, None),
        (sample_state [] sample_image)\<lparr>trace := [EvSave ''thumb_a.png'']\<rparr>)"
  by (simp add: save_simps sample_simps path_simps)

text \<open>
  C10, amended. For every \<^verbatim>\<open>SaveWithDimension\<close> call that reports no error: the returned
  \<open>Path\<close> is the destination override when that is non-empty and the empty string
  otherwise; every write of the call goes to the join of the directory (the generator's
  destination path when the override is empty, the empty directory otherwise) with prefix
  and base file name; and with an empty override the returned \<open>Path\<close> is not that
  location. With a non-empty override the two agree only when the override happens to equal
  the join.
\<close>

theorem SaveWithDimension_reported_path:
  assumes "SaveWithDimension env gen (Some a) (Some conf) s = ((r, None), s')"
  shows "res_Path r = (if DestinationOverride conf \<noteq> [] then DestinationOverride conf else [])
       \<and> set (save_paths (new_events s s')) =
           {Join [if DestinationOverride conf \<noteq> [] then [] else DestinationPath gen,
                  (if Prefix conf \<noteq> [] then Prefix conf else gen_Prefix gen) @ Filename r]}
       \<and> (DestinationOverride conf = [] \<longrightarrow>
            res_Path r \<notin> set (save_paths (new_events s s')))"
proof -
  from SaveWithDimension_success [OF assms] obtain data where
    sv: "saveInternal env
             (Join [if DestinationOverride conf \<noteq> [] then [] else DestinationPath gen,
                    (if Prefix conf \<noteq> [] then Prefix conf else gen_Prefix gen) @
                    (if Name conf \<noteq> [] then Base (Name conf) else Base (Path (heap s a)))])
             data (PreferredFormat gen) s = (Return None, s')"
    and r: "r = \<lparr>Filename = (if Name conf \<noteq> [] then Base (Name conf) else Base (Path (heap s a))),
                res_Path = (if DestinationOverride conf \<noteq> [] then DestinationOverride conf else []),
                Error = None\<rparr>"
    by blast
  have ne: "Join [d, p @ Filename r] \<noteq> []" for d p
    by (rule Join_nonempty) (simp add: r Base_nonempty)
  have ne': "[] \<noteq> Join [d, p @ Filename r]" for d p
    using ne [of d p] by simp
  from saveInternal_save_paths [OF sv] r ne ne' show ?thesis by auto
qed

text \<open>
  The amended C10 on a specification without an override: the returned \<open>Path\<close> is empty
  and the write goes to \<^verbatim>\<open>/out/thumb_c.png\<close>.
\<close>

theorem SaveWithDimension_reported_path_witness:
  "SaveWithDimension (sample_env []) (sample_gen []) (Some 0)
      (Some (sample_dim 100 0)) (sample_state [] sample_image)
     = ((\<lparr>Filename = ''c.png'', res_Path = [], Error = None\<rparr>, None),
        (sample_state [] sample_image)\<lparr>trace := [EvSave ''/out/thumb_c.png'']\<rparr>)
   \<and> set (save_paths (new_events (sample_state [] sample_image)
         ((sample_state [] sample_image)\<lparr>trace := [EvSave ''/out/thumb_c.png'']\<rparr>)))
       = {Join [''/out'', ''thumb_'' @ ''c.png'']}
   \<and> [] \<notin> set (save_paths (new_events (sample_state [] sample_image)
         ((sample_state [] sample_image)\<lparr>trace := [EvSave ''/out/thumb_c.png'']\<rparr>)))"
proof -
  have h: "SaveWithDimension (sample_env []) (sample_gen []) (Some 0)
      (Some (sample_dim 100 0)) (sample_state [] sample_image)
     = ((\<lparr>Filename = ''c.png'', res_Path = [], Error = None\<rparr>, None),
        (sample_state [] sample_image)\<lparr>trace := [EvSave ''/out/thumb_c.png'']\<rparr>)"
    by (simp add: save_simps sample_simps path_simps)
  note c = SaveWithDimension_reported_path [OF h]
  from c [THEN conjunct2, THEN conjunct1]
  have loc: "set (save_paths (new_events (sample_state [] sample_image)
         ((sample_state [] sample_image)\<lparr>trace := [EvSave ''/out/thumb_c.png'']\<rparr>)))
       = {Join [''/out'', ''thumb_'' @ ''c.png'']}"
    by (simp add: sample_gen_def sample_dim_def)
  from c [THEN conjunct2, THEN conjunct2]
  have "[] \<notin> set (save_paths (new_events (sample_state [] sample_image)
         ((sample_state [] sample_image)\<lparr>trace := [EvSave ''/out/thumb_c.png'']\<rparr>)))"
    by (simp add: sample_dim_def)
  with h loc show ?thesis by simp
qed

section \<open>The resize mode\<close>

lemma CreateThumbnail_with_data:
  assumes "ImageData (heap s a) = Some data"
  shows "CreateThumbnail env s (Some a) d =
           (case spec_resize_mode d of
              None \<Rightarrow> (None, Some ErrInvalidNoTransformProvided)
            | Some m \<Rightarrow> resized env data (mode_option m))"
  using assms
  by (simp add: CreateThumbnail_def CreateThumbnail_body_def recover_def resize_to_def
        spec_resize_mode_def resized_def split: outcome.splits)

lemma CreateThumbnail_resize_pixels:
  "CreateThumbnail env s (Some a) d = resize_pixels env (ImageData (heap s a)) d"
proof (cases "ImageData (heap s a)")
  case None
  then show ?thesis
    by (simp add: CreateThumbnail_def CreateThumbnail_body_def recover_def resize_pixels_def)
next
  case (Some data)
  then show ?thesis
    by (simp add: CreateThumbnail_with_data resize_pixels_def)
qed

text \<open>
  C3. For an image with pixel data, \<^verbatim>\<open>CreateThumbnail\<close> (and \<^verbatim>\<open>GetProcessedImage\<close>,
  which only calls it) takes the first of these that applies: a percentage above zero
  asks the resize engine for that percentage and no width or height; else a width and a
  height above zero ask for exactly these; else a width above zero asks for the width and
  leaves the height to the engine; else a height above zero asks for the height and leaves
  the width to the engine; and where none applies the result is the no-transform error.
  This is the mode the specification's wording selects.
\<close>

theorem CreateThumbnail_mode_precedence:
  assumes "ImageData (heap s a) = Some data"
  shows "CreateThumbnail env s (Some a) d =
           (if float_gt_zero (Percentage d) then
              resized env data \<lparr>opt_Width = 0, opt_Height = 0, Percent = Percentage d\<rparr>
            else if Width d > 0 \<and> Height d > 0 then
              resized env data \<lparr>opt_Width = Width d, opt_Height = Height d, Percent = Finite 0\<rparr>
            else if Width d > 0 then
              resized env data \<lparr>opt_Width = Width d, opt_Height = 0, Percent = Finite 0\<rparr>
            else if Height d > 0 then
              resized env data \<lparr>opt_Width = 0, opt_Height = Height d, Percent = Finite 0\<rparr>
            else (None, Some ErrInvalidNoTransformProvided))
       \<and> GetProcessedImage env gen s (Some a) d = CreateThumbnail env s (Some a) d
       \<and> CreateThumbnail env s (Some a) d =
           (case spec_resize_mode d of
              None \<Rightarrow> (None, Some ErrInvalidNoTransformProvided)
            | Some m \<Rightarrow> resized env data (mode_option m))"
  using CreateThumbnail_with_data [OF assms, of env d]
  by (simp add: GetProcessedImage_def spec_resize_mode_def)

text \<open>
  C3 on a specification with a percentage and a width: the percentage wins. And on a
  specification with nothing set the result is the no-transform error.
\<close>

theorem CreateThumbnail_mode_precedence_witness:
  "ImageData (heap (sample_state [] sample_image) 0) = Some (''/tmp/c.png'', [])
   \<and> CreateThumbnail (sample_env []) (sample_state [] sample_image) (Some 0)
        ((sample_dim 100 0)\<lparr>Percentage := Finite (1 / 2)\<rparr>)
     = (Some (''/tmp/c.png'', [\<lparr>opt_Width = 0, opt_Height = 0, Percent = Finite (1 / 2)\<rparr>]), None)
   \<and> CreateThumbnail (sample_env []) (sample_state [] sample_image) (Some 0) (sample_dim 0 0)
     = (None, Some ErrInvalidNoTransformProvided)"
proof -
  have h: "ImageData (heap (sample_state [] sample_image) 0) = Some (''/tmp/c.png'', [])"
    by (simp add: sample_simps)
  from CreateThumbnail_mode_precedence [OF h, THEN conjunct1, of "sample_env []"
         "(sample_dim 100 0)\<lparr>Percentage := Finite (1 / 2)\<rparr>"]
  have one: "CreateThumbnail (sample_env []) (sample_state [] sample_image) (Some 0)
        ((sample_dim 100 0)\<lparr>Percentage := Finite (1 / 2)\<rparr>)
     = (Some (''/tmp/c.png'', [\<lparr>opt_Width = 0, opt_Height = 0, Percent = Finite (1 / 2)\<rparr>]), None)"
    by (simp add: sample_dim_def sample_env_def resized_def)
  from CreateThumbnail_mode_precedence [OF h, THEN conjunct1, of "sample_env []" "sample_dim 0 0"]
  have two: "CreateThumbnail (sample_env []) (sample_state [] sample_image) (Some 0)
        (sample_dim 0 0) = (None, Some ErrInvalidNoTransformProvided)"
    by (simp add: sample_dim_def)
  from h one two show ?thesis by simp
qed

text \<open>
  The older copy of the resize step agrees with the current one wherever neither the width
  nor the height is negative. With a negative one beside a positive one it hands both on,
  where the current step hands on the positive one alone.
\<close>

lemma GetProcessedImage_old_agrees:
  "0 \<le> Width d \<Longrightarrow> 0 \<le> Height d \<Longrightarrow>
     GetProcessedImage_old env s i d = CreateThumbnail env s i d"
  by (auto simp: GetProcessedImage_old_def CreateThumbnail_def CreateThumbnail_body_def
        split: option.splits)

lemma GetProcessedImage_old_negative_height:
  "GetProcessedImage_old (sample_env []) (sample_state [] sample_image) (Some 0)
       (sample_dim 100 (- 1))
     = (Some (''/tmp/c.png'', [\<lparr>opt_Width = 100, opt_Height = - 1, Percent = Finite 0\<rparr>]), None)
   \<and> CreateThumbnail (sample_env []) (sample_state [] sample_image) (Some 0)
       (sample_dim 100 (- 1))
     = (Some (''/tmp/c.png'', [\<lparr>opt_Width = 100, opt_Height = 0, Percent = Finite 0\<rparr>]), None)"
  by (simp add: GetProcessedImage_old_def generate_simps recover_def sample_simps)

section \<open>Panics stop at the entry points\<close>

text \<open>
  An error of \<^verbatim>\<open>imgconv.Save\<close> that is not a path error makes the type assertion of
  \<^verbatim>\<open>saveInternal\<close> panic; the entry point turns the panic into its error.
\<close>

lemma SaveWithDimension_other_error:
  "SaveWithDimension (sample_env []) (sample_gen []) (Some 0) (Some (sample_dim 100 0))
      (sample_state [Return (Some (OtherError ''unsupported format''))] sample_image)
     = ((zero_result, Some (RecoveredFromPanic InterfaceConversion)),
        (sample_state [] sample_image)\<lparr>trace := [EvSave ''/out/thumb_c.png'']\<rparr>)"
  by (simp add: save_simps sample_simps path_simps)

text \<open>
  C9. A panic of the resize engine inside \<^verbatim>\<open>CreateThumbnail\<close>, a panic inside the write
  with retry of \<^verbatim>\<open>Save\<close> and of \<^verbatim>\<open>SaveWithDimension\<close>, and a panic of the write of
  \<^verbatim>\<open>SaveRaw\<close> do not leave the entry point: each returns the panic as an error value,
  with the zero value as its result.
\<close>

theorem entry_points_recover_panics:
  "(ImageData (heap s a) = Some data \<and> spec_resize_mode d = Some m \<and>
      imgconv_Resize env data (mode_option m) = Panic p \<longrightarrow>
      CreateThumbnail env s (Some a) d = (None, Some (RecoveredFromPanic p)))
   \<and> (ImageData (heap s a) = Some data \<and>
      saveInternal env
        (Join [DestinationPath gen,
               gen_Prefix gen @ (if gen_Name gen \<noteq> [] then gen_Name gen
                                 else Base (Path (heap s a)))])
        data (PreferredFormat gen) s = (Panic p, s') \<longrightarrow>
      Save env gen (Some a) s = ((zero_result, Some (RecoveredFromPanic p)), s'))
   \<and> (ImageData (heap s a) = Some data \<and>
      saveInternal env
        (Join [if DestinationOverride conf \<noteq> [] then [] else DestinationPath gen,
               (if Prefix conf \<noteq> [] then Prefix conf else gen_Prefix gen) @
               (if Name conf \<noteq> [] then Base (Name conf) else Base (Path (heap s a)))])
        data (PreferredFormat gen) s = (Panic p, s') \<longrightarrow>
      SaveWithDimension env gen (Some a) (Some conf) s
        = ((zero_result, Some (RecoveredFromPanic p)), s'))
   \<and> (path \<noteq> [] \<and> do_Save env path data format s = (Panic p, s') \<longrightarrow>
      SaveRaw env (Some data) path format s = ((zero_result, Some (RecoveredFromPanic p)), s'))"
  by (simp add: CreateThumbnail_with_data resized_def Save_def Save_body_def
        SaveWithDimension_def SaveWithDimension_body_def SaveRaw_def SaveRaw_body_def
        recover_def Let_def)

text \<open>
  C9 with a resize engine that panics on a width of 70000 and a write that panics in the
  encoder.
\<close>

theorem entry_points_recover_panics_witness:
  "CreateThumbnail (sample_env []) (sample_state [] sample_image) (Some 0) (sample_dim 70000 0)
     = (None, Some (RecoveredFromPanic (LibraryPanic ''image too large'')))
   \<and> Save (sample_env []) (sample_gen []) (Some 0)
        (sample_state [Panic (LibraryPanic ''encoder fault'')] sample_image)
     = ((zero_result, Some (RecoveredFromPanic (LibraryPanic ''encoder fault''))),
        (sample_state [] sample_image)\<lparr>trace := [EvSave ''/out/thumb_b.png'']\<rparr>)
   \<and> SaveWithDimension (sample_env []) (sample_gen []) (Some 0) (Some (sample_dim 100 0))
        (sample_state [Panic (LibraryPanic ''encoder fault'')] sample_image)
     = ((zero_result, Some (RecoveredFromPanic (LibraryPanic ''encoder fault''))),
        (sample_state [] sample_image)\<lparr>trace := [EvSave ''/out/thumb_c.png'']\<rparr>)
   \<and> SaveRaw (sample_env []) (Some (''/tmp/c.png'', [])) ''/out/raw.jpg'' \<lparr>Format = JPEG\<rparr>
        (sample_state [Panic (LibraryPanic ''encoder fault'')] sample_image)
     = ((zero_result, Some (RecoveredFromPanic (LibraryPanic ''encoder fault''))),
        (sample_state [] sample_image)\<lparr>trace := [EvSave ''/out/raw.jpg'']\<rparr>)"
proof -
  have h1: "ImageData (heap (sample_state [] sample_image) 0) = Some (''/tmp/c.png'', []) \<and>
      spec_resize_mode (sample_dim 70000 0) = Some (ByWidth 70000) \<and>
      imgconv_Resize (sample_env []) (''/tmp/c.png'', []) (mode_option (ByWidth 70000))
        = Panic (LibraryPanic ''image too large'')"
    by (simp add: sample_simps spec_resize_mode_def)
  have h2: "ImageData (heap (sample_state [Panic (LibraryPanic ''encoder fault'')] sample_image) 0)
        = Some (''/tmp/c.png'', []) \<and>
      saveInternal (sample_env [])
        (Join [DestinationPath (sample_gen []),
               gen_Prefix (sample_gen []) @
               (if gen_Name (sample_gen []) \<noteq> [] then gen_Name (sample_gen [])
                else Base (Path (heap (sample_state [Panic (LibraryPanic ''encoder fault'')]
                                         sample_image) 0)))])
        (''/tmp/c.png'', []) (PreferredFormat (sample_gen []))
        (sample_state [Panic (LibraryPanic ''encoder fault'')] sample_image)
      = (Panic (LibraryPanic ''encoder fault''),
         (sample_state [] sample_image)\<lparr>trace := [EvSave ''/out/thumb_b.png'']\<rparr>)"
    by (simp add: save_simps sample_simps path_simps)
  have h3: "ImageData (heap (sample_state [Panic (LibraryPanic ''encoder fault'')] sample_image) 0)
        = Some (''/tmp/c.png'', []) \<and>
      saveInternal (sample_env [])
        (Join [if DestinationOverride (sample_dim 100 0) \<noteq> [] then []
               else DestinationPath (sample_gen []),
               (if Prefix (sample_dim 100 0) \<noteq> [] then Prefix (sample_dim 100 0)
                else gen_Prefix (sample_gen [])) @
               (if Name (sample_dim 100 0) \<noteq> [] then Base (Name (sample_dim 100 0))
                else Base (Path (heap (sample_state [Panic (LibraryPanic ''encoder fault'')]
                                         sample_image) 0)))])
        (''/tmp/c.png'', []) (PreferredFormat (sample_gen []))
        (sample_state [Panic (LibraryPanic ''encoder fault'')] sample_image)
      = (Panic (LibraryPanic ''encoder fault''),
         (sample_state [] sample_image)\<lparr>trace := [EvSave ''/out/thumb_c.png'']\<rparr>)"
    by (simp add: save_simps sample_simps path_simps)
  have h4: "''/out/raw.jpg'' \<noteq> [] \<and>
      do_Save (sample_env []) ''/out/raw.jpg'' (''/tmp/c.png'', []) \<lparr>Format = JPEG\<rparr>
        (sample_state [Panic (LibraryPanic ''encoder fault'')] sample_image)
      = (Panic (LibraryPanic ''encoder fault''),
         (sample_state [] sample_image)\<lparr>trace := [EvSave ''/out/raw.jpg'']\<rparr>)"
    by (simp add: do_Save_def sample_simps)
  note c = entry_points_recover_panics
  from c [THEN conjunct1, rule_format, OF h1]
       c [THEN conjunct2, THEN conjunct1, rule_format, OF h2]
       c [THEN conjunct2, THEN conjunct2, THEN conjunct1, rule_format, OF h3]
       c [THEN conjunct2, THEN conjunct2, THEN conjunct2, rule_format, OF h4]
  show ?thesis by simp
qed

section \<open>Loading with a fallback\<close>

lemma ImageFromFile_Inl:
  "imgconv_Open env (fs s) path = Inl err \<Longrightarrow>
     ImageFromFile env path s = (Inl err, s\<lparr>trace := trace s @ [EvOpen path]\<rparr>)"
  by (simp add: ImageFromFile_def do_Open_def)

lemma ImageFromFile_Inr:
  "imgconv_Open env (fs s) path = Inr src \<Longrightarrow>
     ImageFromFile env path s =
       (Inr (next_addr s),
        s\<lparr>trace := trace s @ [EvOpen path],
          heap := (heap s)(next_addr s :=
            \<lparr>Path = path, ImageData = Some src,
             Size = \<lparr>size_Width = fst (Bounds_Max env src),
                     size_Height = snd (Bounds_Max env src)\<rparr>,
             TargetDimension = DefaultThumbnailSize\<rparr>),
          next_addr := Suc (next_addr s)\<rparr>)"
  by (simp add: ImageFromFile_def do_Open_def alloc_def)

text \<open>
  C8, as the specification states it, fails: when neither \<^verbatim>\<open>missing.png\<close> nor the fallback
  \<^verbatim>\<open>default.png\<close> can be opened, the caller gets the error of the fallback, not the
  error of the primary path.
\<close>

theorem NewImageFromFilewWithDefault_counterexample:
  "imgconv_Open (sample_env []) (fs (sample_state [] sample_image)) ''missing.png''
     = Inl (PathError ''open'' ''missing.png'' ENOENT)
   \<and> fst (NewImageFromFilewWithDefault (sample_env []) (sample_gen []) ''missing.png''
            ''default.png'' (sample_state [] sample_image))
     = Inl (PathError ''open'' ''default.png'' ENOENT)"
  by (simp add: NewImageFromFilewWithDefault_def ImageFromFile_def do_Open_def sample_simps)

text \<open>
  C8, amended. If the primary path loads, a new image of that path with its pixel data is
  returned. If the primary path fails and a non-empty fallback path is given, the fallback
  is attempted, and if it loads, a new image of the fallback path is returned. If the
  fallback fails too, the error of the fallback is returned. If the primary path fails and
  no fallback is given, the error of the primary path is returned.
\<close>

theorem NewImageFromFilewWithDefault_fallback:
  "(imgconv_Open env (fs s) path = Inr src \<longrightarrow>
      (\<exists>s'. NewImageFromFilewWithDefault env gen path defaultImg s = (Inr (next_addr s), s') \<and>
            Path (heap s' (next_addr s)) = path \<and>
            ImageData (heap s' (next_addr s)) = Some src))
   \<and> (imgconv_Open env (fs s) path = Inl err \<and> defaultImg \<noteq> [] \<and>
      imgconv_Open env (fs s) defaultImg = Inr src \<longrightarrow>
      (\<exists>s'. NewImageFromFilewWithDefault env gen path defaultImg s = (Inr (next_addr s), s') \<and>
            Path (heap s' (next_addr s)) = defaultImg \<and>
            ImageData (heap s' (next_addr s)) = Some src \<and>
            trace s' = trace s @ [EvOpen path, EvOpen defaultImg]))
   \<and> (imgconv_Open env (fs s) path = Inl err \<and> defaultImg \<noteq> [] \<and>
      imgconv_Open env (fs s) defaultImg = Inl err' \<longrightarrow>
      fst (NewImageFromFilewWithDefault env gen path defaultImg s) = Inl err')
   \<and> (imgconv_Open env (fs s) path = Inl err \<and> defaultImg = [] \<longrightarrow>
      fst (NewImageFromFilewWithDefault env gen path defaultImg s) = Inl err)"
  by (auto simp: NewImageFromFilewWithDefault_def ImageFromFile_Inl ImageFromFile_Inr
        set_TargetDimension_def)

text \<open>
  The amended C8 where only the fallback \<^verbatim>\<open>default.png\<close> exists, and where no fallback is
  given.
\<close>

theorem NewImageFromFilewWithDefault_fallback_witness:
  "(\<exists>s'. NewImageFromFilewWithDefault (sample_env [''default.png'']) (sample_gen [])
           ''missing.png'' ''default.png'' (sample_state [] sample_image) = (Inr 1, s') \<and>
         Path (heap s' 1) = ''default.png'' \<and>
         ImageData (heap s' 1) = Some (''default.png'', []) \<and>
         trace s' = [EvOpen ''missing.png'', EvOpen ''default.png''])
   \<and> fst (NewImageFromFilewWithDefault (sample_env [''default.png'']) (sample_gen [])
           ''missing.png'' [] (sample_state [] sample_image))
       = Inl (PathError ''open'' ''missing.png'' ENOENT)"
proof -
  have h1: "imgconv_Open (sample_env [''default.png'']) (fs (sample_state [] sample_image))
        ''missing.png'' = Inl (PathError ''open'' ''missing.png'' ENOENT) \<and>
      ''default.png'' \<noteq> [] \<and>
      imgconv_Open (sample_env [''default.png'']) (fs (sample_state [] sample_image))
        ''default.png'' = Inr (''default.png'', [])"
    by (simp add: sample_simps)
  have h2: "imgconv_Open (sample_env [''default.png'']) (fs (sample_state [] sample_image))
        ''missing.png'' = Inl (PathError ''open'' ''missing.png'' ENOENT) \<and>
      ([] :: string) = []"
    by (simp add: sample_simps)
  note c = NewImageFromFilewWithDefault_fallback
  from c [THEN conjunct2, THEN conjunct1, rule_format, OF h1, of "sample_gen []"]
       c [THEN conjunct2, THEN conjunct2, THEN conjunct2, rule_format, OF h2, of "sample_gen []"]
  show ?thesis by (simp add: sample_state_def)
qed

section \<open>Generate\<close>

lemma SaveWithDimension_heap:
  assumes "SaveWithDimension env gen i conf s = (r, s')"
  shows "heap s' = heap s"
  using assms
  by (auto simp: SaveWithDimension_def SaveWithDimension_body_def recover_def Let_def
        split: option.splits prod.splits outcome.splits dest: saveInternal_effect)

text \<open>
  One pass of the loop on an image that is there: it always returns a result, leaves the
  path of the image alone, and leaves the pixel data alone unless the resize succeeded.
\<close>

lemma Generate_body_Some:
  "\<exists>s'. Generate_body env gen (Some a) d s =
      (Return (case GetProcessedImage env gen s (Some a) d of
                 (t, Some err) \<Rightarrow>
                   \<lparr>Filename = Path (heap s a), res_Path = Path (heap s a), Error = Some err\<rparr>
               | (t, None) \<Rightarrow>
                   (case SaveWithDimension env gen (Some a) (Some d) (set_ImageData a t s) of
                      ((sv, Some err), s2) \<Rightarrow>
                        \<lparr>Filename = Path (heap s a), res_Path = Path (heap s a),
                         Error = Some err\<rparr>
                    | ((sv, None), s2) \<Rightarrow> sv)), s')
    \<and> Path (heap s' a) = Path (heap s a)
    \<and> ImageData (heap s' a) =
        (case GetProcessedImage env gen s (Some a) d of
           (t, Some err) \<Rightarrow> ImageData (heap s a)
         | (t, None) \<Rightarrow> t)"
proof (cases "GetProcessedImage env gen s (Some a) d")
  case (Pair t e)
  show ?thesis
  proof (cases e)
    case (Some err)
    with Pair show ?thesis by (simp add: Generate_body_def)
  next
    case None
    obtain sv e2 s2 where
      sw: "SaveWithDimension env gen (Some a) (Some d) (set_ImageData a t s) = ((sv, e2), s2)"
      by (metis prod.collapse)
    from SaveWithDimension_heap [OF sw] have h: "heap s2 = heap (set_ImageData a t s)" .
    from Pair None sw h show ?thesis
      by (cases e2) (simp_all add: Generate_body_def set_ImageData_def)
  qed
qed

lemma Generate_loop_Some:
  "\<exists>rs. Generate_loop env gen (Some a) ds acc s =
           (Return (acc @ rs, None), state_before env gen (Some a) ds (length ds) s)
       \<and> length rs = length ds
       \<and> (\<forall>k<length ds.
            fst (Generate_body env gen (Some a) (ds ! k) (state_before env gen (Some a) ds k s))
              = Return (rs ! k))"
proof (induction ds arbitrary: acc s)
  case Nil
  show ?case by simp
next
  case (Cons d ds)
  obtain r s1 where b: "Generate_body env gen (Some a) d s = (Return r, s1)"
    using Generate_body_Some [of env gen a d s] by blast
  from Cons.IH [of "acc @ [r]" s1] obtain rs where
    l: "Generate_loop env gen (Some a) ds (acc @ [r]) s1 =
          (Return ((acc @ [r]) @ rs, None), state_before env gen (Some a) ds (length ds) s1)"
    and n: "length rs = length ds"
    and k: "\<forall>k<length ds.
            fst (Generate_body env gen (Some a) (ds ! k) (state_before env gen (Some a) ds k s1))
              = Return (rs ! k)"
    by blast
  have "\<forall>k<length (d # ds).
          fst (Generate_body env gen (Some a) ((d # ds) ! k)
                 (state_before env gen (Some a) (d # ds) k s)) = Return ((r # rs) ! k)"
  proof (intro allI impI)
    fix j assume "j < length (d # ds)"
    then show "fst (Generate_body env gen (Some a) ((d # ds) ! j)
                 (state_before env gen (Some a) (d # ds) j s)) = Return ((r # rs) ! j)"
      using b k by (cases j) simp_all
  qed
  with b l n show ?case
    by (intro exI [of _ "r # rs"]) simp
qed

lemma state_before_Path:
  "Path (heap (state_before env gen (Some a) ds k s) a) = Path (heap s a)"
proof (induction env gen "Some a" ds k s rule: state_before.induct)
  case (3 env gen d ds k s)
  from Generate_body_Some [of env gen a d s] "3" show ?case by auto
qed simp_all

lemma state_before_pixels:
  "k \<le> length ds \<Longrightarrow>
     ImageData (heap (state_before env gen (Some a) ds k s) a) =
       chained_pixels env (ImageData (heap s a)) (take k ds)"
proof (induction env gen "Some a" ds k s rule: state_before.induct)
  case (3 env gen d ds k s)
  from "3.prems" have "k \<le> length ds" by simp
  note ih = "3.hyps" [OF this]
  from Generate_body_Some [of env gen a d s] ih show ?case
    by (auto simp: GetProcessedImage_def CreateThumbnail_resize_pixels
          split: prod.splits option.splits)
qed simp_all

lemma chained_pixels_append:
  "chained_pixels env x (ds @ [d]) =
     (case resize_pixels env (chained_pixels env x ds) d of
        (t, None) \<Rightarrow> t
      | (t, Some err) \<Rightarrow> chained_pixels env x ds)"
  by (induction ds arbitrary: x) (auto split: prod.splits option.splits)

lemma Generate_loop_no_error:
  "Generate_loop env gen i ds acc s = (Return (rs, e), s') \<Longrightarrow> e = None"
  by (induction ds arbitrary: acc s) (auto split: prod.splits outcome.splits)

text \<open>
  For calls that pass an image. With an empty list of output specifications
  \<^verbatim>\<open>Generate\<close> returns the no-transform error, no results and touches nothing, whatever
  the image pointer is. It returns a top-level error exactly when the list is empty. With a
  non-empty list and an image it returns, with no top-level error, whatever happens to the
  single specifications.
\<close>

lemma Generate_with_image_top_level_error:
  "(OutputFormats gen = [] \<longrightarrow>
      Generate env gen i s = (Return ([], Some ErrInvalidNoTransformProvided), s))
   \<and> ((\<exists>rs e s'. Generate env gen i s = (Return (rs, Some e), s')) \<longleftrightarrow> OutputFormats gen = [])
   \<and> (OutputFormats gen \<noteq> [] \<longrightarrow>
      (\<exists>rs s'. Generate env gen (Some a) s = (Return (rs, None), s')))"
proof (intro conjI impI)
  show "(\<exists>rs e s'. Generate env gen i s = (Return (rs, Some e), s')) \<longleftrightarrow> OutputFormats gen = []"
    by (auto simp: Generate_def dest: Generate_loop_no_error)
next
  assume "OutputFormats gen \<noteq> []"
  with Generate_loop_Some [of env gen a "OutputFormats gen" "[]" s]
  show "\<exists>rs s'. Generate env gen (Some a) s = (Return (rs, None), s')"
    by (auto simp: Generate_def)
qed (simp add: Generate_def)

text \<open>
  For a non-empty list of \<open>N\<close> specifications and an image, \<^verbatim>\<open>Generate\<close> returns
  \<open>N\<close> results, the result number \<open>k\<close> coming from the specification number \<open>k\<close>
  in the state the earlier passes left: when the resize fails, the result has the path of
  the image as \<open>Filename\<close> and as \<open>Path\<close> and the error of the resize; when the
  resize succeeds and the save fails, it has the same with the error of the save; when both
  succeed it is the result of the save. The path is the one the image had when
  \<^verbatim>\<open>Generate\<close> was called.
\<close>

lemma Generate_with_image_one_result_per_specification:
  assumes "OutputFormats gen \<noteq> []"
  shows "\<exists>rs s'. Generate env gen (Some a) s = (Return (rs, None), s')
       \<and> length rs = length (OutputFormats gen)
       \<and> (\<forall>k<length (OutputFormats gen).
            rs ! k =
              (case GetProcessedImage env gen
                      (state_before env gen (Some a) (OutputFormats gen) k s) (Some a)
                      (OutputFormats gen ! k) of
                 (t, Some err) \<Rightarrow>
                   \<lparr>Filename = Path (heap s a), res_Path = Path (heap s a), Error = Some err\<rparr>
               | (t, None) \<Rightarrow>
                   (case SaveWithDimension env gen (Some a) (Some (OutputFormats gen ! k))
                           (set_ImageData a t
                              (state_before env gen (Some a) (OutputFormats gen) k s)) of
                      ((sv, Some err), s2) \<Rightarrow>
                        \<lparr>Filename = Path (heap s a), res_Path = Path (heap s a),
                         Error = Some err\<rparr>
                    | ((sv, None), s2) \<Rightarrow> sv)))"
proof -
  from Generate_loop_Some [of env gen a "OutputFormats gen" "[]" s] obtain rs where
    l: "Generate_loop env gen (Some a) (OutputFormats gen) [] s =
          (Return (rs, None),
           state_before env gen (Some a) (OutputFormats gen) (length (OutputFormats gen)) s)"
    and n: "length rs = length (OutputFormats gen)"
    and k: "\<forall>k<length (OutputFormats gen).
            fst (Generate_body env gen (Some a) (OutputFormats gen ! k)
                   (state_before env gen (Some a) (OutputFormats gen) k s)) = Return (rs ! k)"
    by auto
  have "rs ! j =
              (case GetProcessedImage env gen
                      (state_before env gen (Some a) (OutputFormats gen) j s) (Some a)
                      (OutputFormats gen ! j) of
                 (t, Some err) \<Rightarrow>
                   \<lparr>Filename = Path (heap s a), res_Path = Path (heap s a), Error = Some err\<rparr>
               | (t, None) \<Rightarrow>
                   (case SaveWithDimension env gen (Some a) (Some (OutputFormats gen ! j))
                           (set_ImageData a t
                              (state_before env gen (Some a) (OutputFormats gen) j s)) of
                      ((sv, Some err), s2) \<Rightarrow>
                        \<lparr>Filename = Path (heap s a), res_Path = Path (heap s a),
                         Error = Some err\<rparr>
                    | ((sv, None), s2) \<Rightarrow> sv))"
    if "j < length (OutputFormats gen)" for j
    using k [rule_format, OF that]
      Generate_body_Some [of env gen a "OutputFormats gen ! j"
        "state_before env gen (Some a) (OutputFormats gen) j s"]
    by (auto simp: state_before_Path)
  with l n assms show ?thesis
    by (auto simp: Generate_def)
qed

text \<open>
  On three specifications of which the second sets nothing: three results, the second
  with the source path in both fields and the no-transform error, the third produced all
  the same.
\<close>

lemma Generate_with_image_three_specifications:
  "Generate (sample_env [])
      (sample_gen [sample_dim 100 0, sample_dim 0 0, sample_dim 50 50]) (Some 0)
      (sample_state [] sample_image)
     = (Return ([\<lparr>Filename = ''c.png'', res_Path = [], Error = None\<rparr>,
                 \<lparr>Filename = ''/tmp/c.png'', res_Path = ''/tmp/c.png'',
                  Error = Some ErrInvalidNoTransformProvided\<rparr>,
                 \<lparr>Filename = ''c.png'', res_Path = [], Error = None\<rparr>], None),
        (sample_state [] sample_image)
          \<lparr>trace := [EvSave ''/out/thumb_c.png'', EvSave ''/out/thumb_c.png''],
           heap := (\<lambda>a. sample_image)
             (0 := sample_image\<lparr>ImageData :=
                Some (''/tmp/c.png'',
                      [\<lparr>opt_Width = 100, opt_Height = 0, Percent = Finite 0\<rparr>,
                       \<lparr>opt_Width = 50, opt_Height = 50, Percent = Finite 0\<rparr>])\<rparr>)\<rparr>)"
  by (simp add: generate_simps save_simps sample_simps path_simps)

text \<open>
  \<^verbatim>\<open>Generate\<close> recovers nothing itself. With a nil image the resize reports the
  invalid-image error, as the guard of \<^verbatim>\<open>CreateThumbnail\<close> has it, and building the
  failure result then reads \<^verbatim>\<open>i.Path\<close> through the nil pointer: the call panics in its
  first pass and returns neither results nor an error.
\<close>

lemma Generate_nil_image:
  "OutputFormats gen \<noteq> [] \<Longrightarrow> Generate env gen None s = (Panic NilPointerDereference, s)"
  by (cases "OutputFormats gen")
     (simp_all add: Generate_def Generate_body_def GetProcessedImage_def CreateThumbnail_def
        CreateThumbnail_body_def recover_def)

text \<open>
  C4 against the code. The generator has one output specification, so the claim promises a
  return with no top-level error even though the specification fails. With an image that
  has no pixel data that is what happens: one failure result and no top-level error. With
  a nil image the resize fails in the same way, with the invalid-image error, but
  \<^verbatim>\<open>Generate\<close> panics and returns nothing.
\<close>

theorem Generate_nil_image_no_return:
  "OutputFormats (sample_gen [sample_dim 100 0]) = [sample_dim 100 0]
   \<and> GetProcessedImage (sample_env []) (sample_gen [sample_dim 100 0])
        (sample_state [] sample_image) None (sample_dim 100 0)
     = (None, Some ErrInvalidImageData)
   \<and> Generate (sample_env []) (sample_gen [sample_dim 100 0]) None
        (sample_state [] sample_image)
     = (Panic NilPointerDereference, sample_state [] sample_image)
   \<and> Generate (sample_env []) (sample_gen [sample_dim 100 0]) (Some 0)
        (sample_state [] (sample_image\<lparr>ImageData := None\<rparr>))
     = (Return ([\<lparr>Filename = ''/tmp/c.png'', res_Path = ''/tmp/c.png'',
                  Error = Some ErrInvalidImageData\<rparr>], None),
        sample_state [] (sample_image\<lparr>ImageData := None\<rparr>))"
  by (simp add: generate_simps recover_def sample_simps)

text \<open>
  C5 against the code. The generator has three output specifications, so the claim promises
  three results, each failing one with the error of its step. With an image that has no
  pixel data that is what happens: three results with the source path in both fields and
  the invalid-image error. With a nil image the resize of the first specification fails
  with the same error, and \<^verbatim>\<open>Generate\<close> panics while building the first result: no
  result is produced and the second and third specification are never reached.
\<close>

theorem Generate_nil_image_no_results:
  "length (OutputFormats (sample_gen [sample_dim 100 0, sample_dim 0 0, sample_dim 50 50])) = 3
   \<and> CreateThumbnail (sample_env []) (sample_state [] sample_image) None (sample_dim 100 0)
     = (None, Some ErrInvalidImageData)
   \<and> Generate_body (sample_env [])
        (sample_gen [sample_dim 100 0, sample_dim 0 0, sample_dim 50 50]) None
        (sample_dim 100 0) (sample_state [] sample_image)
     = (Panic NilPointerDereference, sample_state [] sample_image)
   \<and> Generate (sample_env [])
        (sample_gen [sample_dim 100 0, sample_dim 0 0, sample_dim 50 50]) None
        (sample_state [] sample_image)
     = (Panic NilPointerDereference, sample_state [] sample_image)
   \<and> Generate (sample_env [])
        (sample_gen [sample_dim 100 0, sample_dim 0 0, sample_dim 50 50]) (Some 0)
        (sample_state [] (sample_image\<lparr>ImageData := None\<rparr>))
     = (Return ([\<lparr>Filename = ''/tmp/c.png'', res_Path = ''/tmp/c.png'',
                  Error = Some ErrInvalidImageData\<rparr>,
                 \<lparr>Filename = ''/tmp/c.png'', res_Path = ''/tmp/c.png'',
                  Error = Some ErrInvalidImageData\<rparr>,
                 \<lparr>Filename = ''/tmp/c.png'', res_Path = ''/tmp/c.png'',
                  Error = Some ErrInvalidImageData\<rparr>], None),
        sample_state [] (sample_image\<lparr>ImageData := None\<rparr>))"
  by (simp add: generate_simps recover_def sample_simps)

text \<open>A pass whose resize fails keeps the pixels; a pass whose resize succeeds stores its output.\<close>

lemma state_before_step:
  assumes "k < length ds"
  shows "GetProcessedImage env gen (state_before env gen (Some a) ds k s) (Some a) (ds ! k)
           = resize_pixels env (chained_pixels env (ImageData (heap s a)) (take k ds)) (ds ! k)"
  using assms state_before_pixels [of k ds env gen a s]
  by (simp add: GetProcessedImage_def CreateThumbnail_resize_pixels)

lemma state_before_keep:
  assumes "k < length ds"
    and "snd (GetProcessedImage env gen (state_before env gen (Some a) ds k s) (Some a) (ds ! k))
           \<noteq> None"
  shows "ImageData (heap (state_before env gen (Some a) ds (Suc k) s) a)
           = ImageData (heap (state_before env gen (Some a) ds k s) a)"
proof -
  from assms(1) have le: "Suc k \<le> length ds" "k \<le> length ds" by simp_all
  from assms(2) state_before_step [OF assms(1), of env gen a s]
    state_before_pixels [OF le(1), of env gen a s]
    state_before_pixels [OF le(2), of env gen a s] assms(1)
  show ?thesis
    by (auto simp: take_Suc_conv_app_nth chained_pixels_append split: prod.splits option.splits)
qed

lemma state_before_replace:
  assumes "k < length ds"
    and "GetProcessedImage env gen (state_before env gen (Some a) ds k s) (Some a) (ds ! k)
           = (t, None)"
  shows "ImageData (heap (state_before env gen (Some a) ds (Suc k) s) a) = t"
proof -
  from assms(1) have le: "Suc k \<le> length ds" by simp
  from assms state_before_step [OF assms(1), of env gen a s]
    state_before_pixels [OF le, of env gen a s]
  show ?thesis
    by (simp add: take_Suc_conv_app_nth chained_pixels_append)
qed

text \<open>Once a resize has succeeded, the image holds the output of a successful resize.\<close>

lemma state_before_some_output:
  "j \<le> length ds \<Longrightarrow>
   \<exists>k<j. snd (GetProcessedImage env gen (state_before env gen (Some a) ds k s) (Some a) (ds ! k))
            = None \<Longrightarrow>
   \<exists>k<j. GetProcessedImage env gen (state_before env gen (Some a) ds k s) (Some a) (ds ! k)
            = (ImageData (heap (state_before env gen (Some a) ds j s) a), None)"
proof (induction j)
  case 0
  then show ?case by simp
next
  case (Suc j)
  let ?step = "\<lambda>k. GetProcessedImage env gen (state_before env gen (Some a) ds k s) (Some a) (ds ! k)"
  from Suc.prems(1) have j: "j < length ds" by simp
  show ?case
  proof (cases "snd (?step j)")
    case None
    then have "?step j = (fst (?step j), None)" by (metis prod.collapse)
    from state_before_replace [OF j this] this show ?thesis
      by (intro exI [of _ j]) simp
  next
    case (Some err)
    then have "snd (?step j) \<noteq> None" by simp
    from state_before_keep [OF j this]
    have keep: "ImageData (heap (state_before env gen (Some a) ds (Suc j) s) a)
                  = ImageData (heap (state_before env gen (Some a) ds j s) a)" .
    from Suc.prems(2) Some have "\<exists>k<j. snd (?step k) = None"
      by (metis less_Suc_eq option.distinct(1))
    with Suc.IH j obtain k where "k < j"
      and "?step k = (ImageData (heap (state_before env gen (Some a) ds j s) a), None)"
      by auto
    with keep show ?thesis
      by (intro exI [of _ k]) simp
  qed
qed

text \<open>
  C7. In a call of \<^verbatim>\<open>Generate\<close> with a non-empty list and an image: the resize of each
  specification works on the pixels that the chain of the earlier specifications left,
  that is on the output of the last successful resize before it and on the original
  pixels only while none has succeeded; after each successful resize the image at the
  caller's address holds the resized pixels; when \<^verbatim>\<open>Generate\<close> has returned, the
  caller's image holds what the whole chain left; and if any resize of the call has
  succeeded, that is the output of one of the successful resizes.
\<close>

theorem Generate_chains_resized_pixels:
  assumes "OutputFormats gen \<noteq> []"
  shows "\<exists>rs s'. Generate env gen (Some a) s = (Return (rs, None), s')
       \<and> (\<forall>k<length (OutputFormats gen).
            GetProcessedImage env gen (state_before env gen (Some a) (OutputFormats gen) k s)
                (Some a) (OutputFormats gen ! k)
              = resize_pixels env
                  (chained_pixels env (ImageData (heap s a)) (take k (OutputFormats gen)))
                  (OutputFormats gen ! k))
       \<and> (\<forall>k<length (OutputFormats gen). \<forall>t.
            GetProcessedImage env gen (state_before env gen (Some a) (OutputFormats gen) k s)
                (Some a) (OutputFormats gen ! k) = (t, None) \<longrightarrow>
            ImageData (heap (state_before env gen (Some a) (OutputFormats gen) (Suc k) s) a) = t)
       \<and> ImageData (heap s' a) = chained_pixels env (ImageData (heap s a)) (OutputFormats gen)
       \<and> ((\<exists>k<length (OutputFormats gen).
              snd (GetProcessedImage env gen
                     (state_before env gen (Some a) (OutputFormats gen) k s)
                     (Some a) (OutputFormats gen ! k)) = None) \<longrightarrow>
            (\<exists>k<length (OutputFormats gen).
              GetProcessedImage env gen (state_before env gen (Some a) (OutputFormats gen) k s)
                (Some a) (OutputFormats gen ! k) = (ImageData (heap s' a), None)))"
proof -
  let ?ds = "OutputFormats gen"
  let ?end = "state_before env gen (Some a) ?ds (length ?ds) s"
  from Generate_loop_Some [of env gen a ?ds "[]" s] obtain rs where
    l: "Generate_loop env gen (Some a) ?ds [] s = (Return (rs, None), ?end)"
    by auto
  with assms have g: "Generate env gen (Some a) s = (Return (rs, None), ?end)"
    by (simp add: Generate_def)
  from state_before_pixels [of "length ?ds" ?ds env gen a s]
  have fin: "ImageData (heap ?end a) = chained_pixels env (ImageData (heap s a)) ?ds"
    by simp
  have out: "(\<exists>k<length ?ds.
              snd (GetProcessedImage env gen (state_before env gen (Some a) ?ds k s)
                     (Some a) (?ds ! k)) = None) \<longrightarrow>
            (\<exists>k<length ?ds.
              GetProcessedImage env gen (state_before env gen (Some a) ?ds k s)
                (Some a) (?ds ! k) = (ImageData (heap ?end a), None))"
    using state_before_some_output [of "length ?ds" ?ds env gen a s] by blast
  show ?thesis
  proof (intro exI [of _ rs] exI [of _ ?end] conjI allI impI)
    show "Generate env gen (Some a) s = (Return (rs, None), ?end)" by (rule g)
  next
    fix k assume "k < length ?ds"
    then show "GetProcessedImage env gen (state_before env gen (Some a) ?ds k s) (Some a) (?ds ! k)
        = resize_pixels env (chained_pixels env (ImageData (heap s a)) (take k ?ds)) (?ds ! k)"
      by (rule state_before_step)
  next
    fix k t assume "k < length ?ds"
      and "GetProcessedImage env gen (state_before env gen (Some a) ?ds k s) (Some a) (?ds ! k)
             = (t, None)"
    then show "ImageData (heap (state_before env gen (Some a) ?ds (Suc k) s) a) = t"
      by (rule state_before_replace)
  next
    show "ImageData (heap ?end a) = chained_pixels env (ImageData (heap s a)) ?ds" by (rule fin)
  next
    assume "\<exists>k<length ?ds.
              snd (GetProcessedImage env gen (state_before env gen (Some a) ?ds k s)
                     (Some a) (?ds ! k)) = None"
    with out show "\<exists>k<length ?ds.
              GetProcessedImage env gen (state_before env gen (Some a) ?ds k s)
                (Some a) (?ds ! k) = (ImageData (heap ?end a), None)"
      by blast
  qed
qed

text \<open>
  C7 on the widths 100 and 50: afterwards the caller's image holds pixels resized twice,
  to 100 and then from there to 50, and no longer the pixels it was loaded with.
\<close>

theorem Generate_chains_resized_pixels_witness:
  "\<exists>rs s'. Generate (sample_env []) (sample_gen [sample_dim 100 0, sample_dim 50 0]) (Some 0)
              (sample_state [] sample_image) = (Return (rs, None), s')
     \<and> ImageData (heap s' 0) =
         Some (''/tmp/c.png'',
               [\<lparr>opt_Width = 100, opt_Height = 0, Percent = Finite 0\<rparr>,
                \<lparr>opt_Width = 50, opt_Height = 0, Percent = Finite 0\<rparr>])
     \<and> ImageData (heap (sample_state [] sample_image) 0) = Some (''/tmp/c.png'', [])"
proof -
  let ?G = "sample_gen [sample_dim 100 0, sample_dim 50 0]"
  have h: "OutputFormats ?G \<noteq> []"
    by (simp add: sample_gen_def)
  from Generate_chains_resized_pixels [OF h, of "sample_env []" 0 "sample_state [] sample_image"]
  obtain rs s' where
    g: "Generate (sample_env []) ?G (Some 0) (sample_state [] sample_image)
          = (Return (rs, None), s')"
    and f: "ImageData (heap s' 0) =
              chained_pixels (sample_env []) (ImageData (heap (sample_state [] sample_image) 0))
                (OutputFormats ?G)"
    by blast
  from f have "ImageData (heap s' 0) =
         Some (''/tmp/c.png'',
               [\<lparr>opt_Width = 100, opt_Height = 0, Percent = Finite 0\<rparr>,
                \<lparr>opt_Width = 50, opt_Height = 0, Percent = Finite 0\<rparr>])"
    by (simp add: generate_simps sample_simps)
  moreover have "ImageData (heap (sample_state [] sample_image) 0) = Some (''/tmp/c.png'', [])"
    by (simp add: sample_simps)
  ultimately show ?thesis using g by blast
qed

end
